theory Spec2Isabelle
  imports Main "HOL-Library.Multiset"
begin

section \<open>The schema\<close>

text \<open>
  The mapped classes of \<^verbatim>\<open>04_quering_with_sqlalchemy_orm.py\<close> and
  \<^verbatim>\<open>05_modifying_data_with_orm.py\<close>. A table is the list of its rows, in the
  order they were inserted. A column declared \<^verbatim>\<open>Optional\<close> is an \<open>option\<close>; every other
  column is NOT NULL. Column values stand for values of their column type: a string
  fits its VARCHAR, an integer is in the range of its INTEGER or BIGINT, and a price
  is a DECIMAL(16, 4) given in ten-thousandths. Timestamps are points of a discrete
  clock; each call receives the reading \<open>now\<close> of the server's \<^verbatim>\<open>now()\<close>.
\<close>

type_synonym timestamp = nat

record TimestampMixin =
  created_at :: timestamp
  updated_at :: timestamp

record User = TimestampMixin +
  telegram_id :: int
  full_name :: string
  user_name :: "string option"
  language_code :: string
  referrer_id :: "int option"

record Order = TimestampMixin +
  order_id :: int
  user_id :: int

record Product = TimestampMixin +
  product_id :: int
  title :: string
  description :: "string option"
  price :: int

text \<open>
  The association class \<^verbatim>\<open>OrderProducts\<close>. Its columns \<^verbatim>\<open>order_id\<close> and
  \<^verbatim>\<open>product_id\<close> are prefixed here, the names being taken by the keys of \<open>Order\<close>
  and \<open>Product\<close>.
\<close>

record OrderProducts =
  op_order_id :: int
  op_product_id :: int
  quantity :: int

text \<open>
  The database: the four tables, and the two sequences behind the SERIAL keys
  \<^verbatim>\<open>orders.order_id\<close> and \<^verbatim>\<open>products.product_id\<close> (each holds the value the next
  \<^verbatim>\<open>nextval\<close> returns).
\<close>

record db =
  users :: "User list"
  orders :: "Order list"
  products :: "Product list"
  order_products :: "OrderProducts list"
  orders_seq :: int
  products_seq :: int

definition empty_db :: db where
  "empty_db = \<lparr>users = [], orders = [], products = [], order_products = [],
     orders_seq = 1, products_seq = 1\<rparr>"

text \<open>The errors the database raises; the client library hands them to the caller.\<close>

datatype db_error = UniqueViolation | ForeignKeyViolation | NotNullViolation

section \<open>The session\<close>

text \<open>
  Every method of \<^verbatim>\<open>Repo\<close> executes one statement on its session and then calls
  \<^verbatim>\<open>session.commit()\<close>. A statement runs on a working copy of the database. When it
  raises, the commit is not reached and the transaction is rolled back as the session
  closes: the tables are those from before the call. A sequence is not transactional
  and keeps the values it has handed out.
\<close>

definition rollback :: "db \<Rightarrow> db \<Rightarrow> db" where
  "rollback before work =
     before\<lparr>orders_seq := orders_seq work, products_seq := products_seq work\<rparr>"

definition execute_and_commit ::
  "(db \<Rightarrow> (db_error + 'a) \<times> db) \<Rightarrow> db \<Rightarrow> (db_error + 'a) \<times> db" where
  "execute_and_commit stmt d =
     (case stmt d of
        (Inl e, work) \<Rightarrow> (Inl e, rollback d work)
      | (Inr r, work) \<Rightarrow> (Inr r, work))"

text \<open>\<^verbatim>\<open>result.first()\<close>: the first row of the result, or \<^verbatim>\<open>None\<close> when there is none.\<close>

definition first :: "'a list \<Rightarrow> 'a option" where
  "first rows = (case rows of [] \<Rightarrow> None | r # _ \<Rightarrow> Some r)"

text \<open>The foreign key of \<^verbatim>\<open>referrer_id\<close>: a referrer, when given, is a row of users.\<close>

definition referrer_exists :: "int option \<Rightarrow> User list \<Rightarrow> bool" where
  "referrer_exists r us =
     (case r of None \<Rightarrow> True | Some i \<Rightarrow> \<exists>u \<in> set us. telegram_id u = i)"

section \<open>Creating a user\<close>

text \<open>
  \<^verbatim>\<open>set_=dict(user_name=user_name, full_name=full_name)\<close> on the rows in conflict with
  the proposed key: the two columns are assigned, every other column stays
  (\<^verbatim>\<open>set_\<close> ignores \<^verbatim>\<open>onupdate\<close>, so \<^verbatim>\<open>updated_at\<close> stays too).
\<close>

definition upsert_row :: "int \<Rightarrow> string option \<Rightarrow> string \<Rightarrow> User \<Rightarrow> User" where
  "upsert_row tid uname fname u =
     (if telegram_id u = tid then u\<lparr>user_name := uname, full_name := fname\<rparr> else u)"

text \<open>
  The statement of \<^verbatim>\<open>Repo.add_user\<close> (file 04, lines 381 to 395):
  \<^verbatim>\<open>insert(User).values(...).on_conflict_do_update(index_elements=[User.telegram_id],
  set_=dict(user_name=user_name, full_name=full_name)).returning(User)\<close>.
  On a row with the same \<^verbatim>\<open>telegram_id\<close> the proposed row is dropped and the existing
  row is updated. Otherwise the row is inserted, both timestamps taking their server
  default, and its referrer must exist.
\<close>

definition insert_user_on_conflict_do_update ::
  "timestamp \<Rightarrow> int \<Rightarrow> string \<Rightarrow> string \<Rightarrow> string option \<Rightarrow> int option \<Rightarrow> db
     \<Rightarrow> (db_error + User list) \<times> db" where
  "insert_user_on_conflict_do_update now tid fname lcode uname ref d =
     (if \<exists>u \<in> set (users d). telegram_id u = tid then
        let work = d\<lparr>users := map (upsert_row tid uname fname) (users d)\<rparr>
        in (Inr (filter (\<lambda>u. telegram_id u = tid) (users work)), work)
      else
        let row = \<lparr>created_at = now, updated_at = now, telegram_id = tid,
                   full_name = fname, user_name = uname, language_code = lcode,
                   referrer_id = ref\<rparr>;
            work = d\<lparr>users := users d @ [row]\<rparr>
        in if referrer_exists ref (users work) then (Inr [row], work)
           else (Inl ForeignKeyViolation, d))"

text \<open>
  \<^verbatim>\<open>Repo.add_user\<close> (file 04, lines 373 to 399): execute, commit, and return
  \<^verbatim>\<open>result.first()\<close>.
\<close>

definition add_user ::
  "timestamp \<Rightarrow> int \<Rightarrow> string \<Rightarrow> string \<Rightarrow> string option \<Rightarrow> int option \<Rightarrow> db
     \<Rightarrow> (db_error + User option) \<times> db" where
  "add_user now tid fname lcode uname ref d =
     (case execute_and_commit
             (insert_user_on_conflict_do_update now tid fname lcode uname ref) d of
        (Inl e, d') \<Rightarrow> (Inl e, d')
      | (Inr rows, d') \<Rightarrow> (Inr (first rows), d'))"

section \<open>Creating orders, products and line items\<close>

text \<open>
  \<^verbatim>\<open>Repo.create_new_order_for_user\<close> (file 05, lines 489 to 500):
  \<^verbatim>\<open>insert(Order).values(user_id=user_id).returning(Order.order_id)\<close>. The key is drawn
  from the sequence; the key must be new and the user must exist.
\<close>

definition insert_order :: "timestamp \<Rightarrow> int \<Rightarrow> db \<Rightarrow> (db_error + int list) \<times> db" where
  "insert_order now uid d =
     (let oid = orders_seq d;
          work = d\<lparr>orders_seq := oid + 1\<rparr>
      in if \<exists>ord \<in> set (orders work). order_id ord = oid then (Inl UniqueViolation, work)
         else if \<exists>u \<in> set (users work). telegram_id u = uid then
           (Inr [oid],
            work\<lparr>orders := orders work @
              [\<lparr>created_at = now, updated_at = now, order_id = oid, user_id = uid\<rparr>]\<rparr>)
         else (Inl ForeignKeyViolation, work))"

definition create_new_order_for_user ::
  "timestamp \<Rightarrow> int \<Rightarrow> db \<Rightarrow> (db_error + int option) \<times> db" where
  "create_new_order_for_user now uid d =
     (case execute_and_commit (insert_order now uid) d of
        (Inl e, d') \<Rightarrow> (Inl e, d')
      | (Inr ids, d') \<Rightarrow> (Inr (first ids), d'))"

text \<open>
  \<^verbatim>\<open>Repo.add_order_product\<close> (file 04, lines 421 to 427): one row of the association
  table. The composite key must be new; the order and the product must exist.
\<close>

definition insert_order_product ::
  "int \<Rightarrow> int \<Rightarrow> int \<Rightarrow> db \<Rightarrow> (db_error + unit) \<times> db" where
  "insert_order_product oid pid q d =
     (if \<exists>l \<in> set (order_products d). op_order_id l = oid \<and> op_product_id l = pid
      then (Inl UniqueViolation, d)
      else if (\<exists>ord \<in> set (orders d). order_id ord = oid) \<and>
              (\<exists>p \<in> set (products d). product_id p = pid)
      then (Inr (), d\<lparr>order_products := order_products d @
              [\<lparr>op_order_id = oid, op_product_id = pid, quantity = q\<rparr>]\<rparr>)
      else (Inl ForeignKeyViolation, d))"

definition add_order_product ::
  "int \<Rightarrow> int \<Rightarrow> int \<Rightarrow> db \<Rightarrow> (db_error + unit) \<times> db" where
  "add_order_product oid pid q d = execute_and_commit (insert_order_product oid pid q) d"

text \<open>
  The dictionaries handed to \<^verbatim>\<open>Repo.add_bulk_products\<close>: the keys \<^verbatim>\<open>title\<close>,
  \<^verbatim>\<open>description\<close> and \<^verbatim>\<open>price\<close>, each value possibly \<^verbatim>\<open>None\<close>.
\<close>

record product_values =
  pv_title :: "string option"
  pv_description :: "string option"
  pv_price :: "int option"

text \<open>
  The statement of \<^verbatim>\<open>Repo.add_bulk_products\<close> (file 05, lines 504 to 511), executed
  with the list of dictionaries: one row per dictionary, in order. Each row draws its key
  from the sequence; \<^verbatim>\<open>title\<close> and \<^verbatim>\<open>price\<close> are NOT NULL. The first row that is
  refused ends the statement, with the rows before it already in the working copy.
\<close>

fun insert_products ::
  "timestamp \<Rightarrow> product_values list \<Rightarrow> db \<Rightarrow> (db_error + Product list) \<times> db" where
  "insert_products now [] d = (Inr [], d)"
| "insert_products now (v # vs) d =
     (let pid = products_seq d;
          work = d\<lparr>products_seq := pid + 1\<rparr>
      in case (pv_title v, pv_price v) of
           (Some t, Some p) \<Rightarrow>
             if \<exists>q \<in> set (products work). product_id q = pid
             then (Inl UniqueViolation, work)
             else
               let row = \<lparr>created_at = now, updated_at = now, product_id = pid,
                          title = t, description = pv_description v, price = p\<rparr>
               in (case insert_products now vs
                          (work\<lparr>products := products work @ [row]\<rparr>) of
                     (Inl e, w) \<Rightarrow> (Inl e, w)
                   | (Inr rows, w) \<Rightarrow> (Inr (row # rows), w))
         | _ \<Rightarrow> (Inl NotNullViolation, work))"

text \<open>
  \<^verbatim>\<open>Repo.add_bulk_products\<close> (file 05, lines 502 to 515): execute, commit, and return
  \<^verbatim>\<open>result.scalars().all()\<close>.
\<close>

definition add_bulk_products ::
  "timestamp \<Rightarrow> product_values list \<Rightarrow> db \<Rightarrow> (db_error + Product list) \<times> db" where
  "add_bulk_products now vs d = execute_and_commit (insert_products now vs) d"

section \<open>Updating and deleting users\<close>

text \<open>
  \<^verbatim>\<open>.where(User.telegram_id == user_id).values(referrer_id=referrer_id)\<close> on one row:
  a row of that key takes the referrer, and \<^verbatim>\<open>updated_at\<close> takes \<^verbatim>\<open>now()\<close>
  (its \<^verbatim>\<open>onupdate\<close>); any other row stays.
\<close>

definition set_referrer_row :: "timestamp \<Rightarrow> int \<Rightarrow> int \<Rightarrow> User \<Rightarrow> User" where
  "set_referrer_row now uid ref u =
     (if telegram_id u = uid then u\<lparr>referrer_id := Some ref, updated_at := now\<rparr> else u)"

text \<open>
  The statement of \<^verbatim>\<open>Repo.set_new_referrer\<close> (file 05, lines 474 to 479):
  \<^verbatim>\<open>update(User).where(User.telegram_id == user_id).values(referrer_id=referrer_id)
  .returning(User)\<close>. The foreign key is checked for the rows that were updated.
\<close>

definition update_user_referrer ::
  "timestamp \<Rightarrow> int \<Rightarrow> int \<Rightarrow> db \<Rightarrow> (db_error + User list) \<times> db" where
  "update_user_referrer now uid ref d =
     (let work = d\<lparr>users := map (set_referrer_row now uid ref) (users d)\<rparr>;
          rows = filter (\<lambda>u. telegram_id u = uid) (users work)
      in if rows = [] \<or> referrer_exists (Some ref) (users work) then (Inr rows, work)
         else (Inl ForeignKeyViolation, d))"

text \<open>
  \<^verbatim>\<open>Repo.set_new_referrer\<close> (file 05, lines 473 to 482): execute, commit, and return
  \<^verbatim>\<open>result.scalars().first()\<close>.
\<close>

definition set_new_referrer ::
  "timestamp \<Rightarrow> int \<Rightarrow> int \<Rightarrow> db \<Rightarrow> (db_error + User option) \<times> db" where
  "set_new_referrer now uid ref d =
     (case execute_and_commit (update_user_referrer now uid ref) d of
        (Inl e, d') \<Rightarrow> (Inl e, d')
      | (Inr rows, d') \<Rightarrow> (Inr (first rows), d'))"

text \<open>
  Deleting rows of orders: \<^verbatim>\<open>order_products.order_id\<close> references
  \<^verbatim>\<open>orders.order_id\<close> with \<^verbatim>\<open>ondelete='CASCADE'\<close> (file 05, lines 131 to 133), so the
  line items of a deleted order are deleted with it.
\<close>

definition delete_orders_where :: "(Order \<Rightarrow> bool) \<Rightarrow> db \<Rightarrow> db" where
  "delete_orders_where P d =
     (let gone = map order_id (filter P (orders d))
      in d\<lparr>orders := filter (\<lambda>ord. \<not> P ord) (orders d),
           order_products := filter (\<lambda>l. op_order_id l \<notin> set gone) (order_products d)\<rparr>)"

text \<open>
  The statement of \<^verbatim>\<open>Repo.delete_user_by_id\<close> (file 05, line 485):
  \<^verbatim>\<open>delete(User).where(User.telegram_id == user_id)\<close>. The actions of the schema run for
  the rows that are deleted: \<^verbatim>\<open>users.referrer_id\<close> is declared with
  \<^verbatim>\<open>ondelete='SET NULL'\<close> (file 05, lines 96 to 99), and \<^verbatim>\<open>orders.user_id\<close> is a
  \<^verbatim>\<open>user_fk\<close>, declared with \<^verbatim>\<open>ondelete='CASCADE'\<close> (file 05, lines 65 to 67 and 110).
  When no row matches, nothing is deleted and no action runs.
\<close>

definition set_null_row :: "int \<Rightarrow> User \<Rightarrow> User" where
  "set_null_row uid u = (if referrer_id u = Some uid then u\<lparr>referrer_id := None\<rparr> else u)"

definition delete_from_users :: "int \<Rightarrow> db \<Rightarrow> (db_error + unit) \<times> db" where
  "delete_from_users uid d =
     (if filter (\<lambda>u. telegram_id u = uid) (users d) = [] then (Inr (), d)
      else
        let kept = filter (\<lambda>u. telegram_id u \<noteq> uid) (users d);
            work = d\<lparr>users := map (set_null_row uid) kept\<rparr>
        in (Inr (), delete_orders_where (\<lambda>ord. user_id ord = uid) work))"

text \<open>\<^verbatim>\<open>Repo.delete_user_by_id\<close> (file 05, lines 484 to 487): execute and commit.\<close>

definition delete_user_by_id :: "int \<Rightarrow> db \<Rightarrow> (db_error + unit) \<times> db" where
  "delete_user_by_id uid d = execute_and_commit (delete_from_users uid) d"

section \<open>Deleting orders and products\<close>

text \<open>
  Modelled from the spec: a delete of an order. No method of \<^verbatim>\<open>Repo\<close> deletes an
  order; the source only declares the schema. The spec: "deleting an order cascades to
  its line items". The statement is \<^verbatim>\<open>DELETE FROM orders WHERE order_id = :id\<close>, run
  against the declared schema, executed and committed like every other method.
\<close>

definition delete_order_by_id :: "int \<Rightarrow> db \<Rightarrow> (db_error + unit) \<times> db" where
  "delete_order_by_id oid d =
     execute_and_commit (\<lambda>w. (Inr (), delete_orders_where (\<lambda>ord. order_id ord = oid) w)) d"

text \<open>
  Modelled from the spec: a delete of a product. No method of \<^verbatim>\<open>Repo\<close> deletes a
  product; the source only declares that \<^verbatim>\<open>order_products.product_id\<close> references
  \<^verbatim>\<open>products.product_id\<close> with \<^verbatim>\<open>ondelete='RESTRICT'\<close> (file 05, lines 134 to 136).
  The spec: "deleting a product referenced by a line item is rejected". The statement is
  \<^verbatim>\<open>DELETE FROM products WHERE product_id = :id\<close>.
\<close>

definition delete_from_products :: "int \<Rightarrow> db \<Rightarrow> (db_error + unit) \<times> db" where
  "delete_from_products pid d =
     (if filter (\<lambda>p. product_id p = pid) (products d) = [] then (Inr (), d)
      else if \<exists>l \<in> set (order_products d). op_product_id l = pid
      then (Inl ForeignKeyViolation, d)
      else (Inr (), d\<lparr>products := filter (\<lambda>p. product_id p \<noteq> pid) (products d)\<rparr>))"

definition delete_product_by_id :: "int \<Rightarrow> db \<Rightarrow> (db_error + unit) \<times> db" where
  "delete_product_by_id pid d = execute_and_commit (delete_from_products pid) d"

section \<open>Queries\<close>

text \<open>
  \<^verbatim>\<open>JOIN ... ON\<close>: the pairs of a left and a right row that satisfy the condition.
\<close>

definition inner_join :: "'a list \<Rightarrow> 'b list \<Rightarrow> ('a \<Rightarrow> 'b \<Rightarrow> bool) \<Rightarrow> ('a \<times> 'b) list" where
  "inner_join ls rs on = concat (map (\<lambda>l. map (Pair l) (filter (on l) rs)) ls)"

text \<open>
  \<^verbatim>\<open>Repo.get_all_user_orders_relationships\<close> (file 04, lines 671 to 680):
  \<^verbatim>\<open>select(Product, Order, User.user_name, OrderProducts.quantity).join(User.orders)
  .join(Order.products).join(Product).where(User.telegram_id == telegram_id)\<close>, that is
  users JOIN orders JOIN order products JOIN products, each on its foreign key.
\<close>

definition get_all_user_orders_relationships ::
  "int \<Rightarrow> db \<Rightarrow> (Product \<times> Order \<times> string option \<times> int) list" where
  "get_all_user_orders_relationships tid d =
     map (\<lambda>(((u, ord), l), p). (p, ord, user_name u, quantity l))
       (filter (\<lambda>(((u, ord), l), p). telegram_id u = tid)
         (inner_join
           (inner_join
             (inner_join (users d) (orders d) (\<lambda>u ord. telegram_id u = user_id ord))
             (order_products d) (\<lambda>(u, ord) l. order_id ord = op_order_id l))
           (products d) (\<lambda>((u, ord), l) p. product_id p = op_product_id l)))"

text \<open>
  \<^verbatim>\<open>Repo.get_all_user_orders_no_relationships\<close> (file 04, lines 682 to 692):
  \<^verbatim>\<open>select(Product, Order, User.user_name, OrderProducts.quantity).join(OrderProducts)
  .join(Order).join(User).select_from(Product).where(User.telegram_id == telegram_id)\<close>,
  that is products JOIN order products JOIN orders JOIN users.
\<close>

definition get_all_user_orders_no_relationships ::
  "int \<Rightarrow> db \<Rightarrow> (Product \<times> Order \<times> string option \<times> int) list" where
  "get_all_user_orders_no_relationships tid d =
     map (\<lambda>(((p, l), ord), u). (p, ord, user_name u, quantity l))
       (filter (\<lambda>(((p, l), ord), u). telegram_id u = tid)
         (inner_join
           (inner_join
             (inner_join (products d) (order_products d)
               (\<lambda>p l. product_id p = op_product_id l))
             (orders d) (\<lambda>(p, l) ord. order_id ord = op_order_id l))
           (users d) (\<lambda>((p, l), ord) u. telegram_id u = user_id ord)))"

text \<open>
  \<^verbatim>\<open>GROUP BY\<close>: one group for each value of the key, holding the rows with that value.
\<close>

definition group_by :: "('r \<Rightarrow> 'k) \<Rightarrow> 'r list \<Rightarrow> ('k \<times> 'r list) list" where
  "group_by key rows =
     map (\<lambda>k. (k, filter (\<lambda>r. key r = k) rows)) (remdups (map key rows))"

text \<open>
  The rows that \<^verbatim>\<open>Repo.get_count_of_products_by_user\<close> and
  \<^verbatim>\<open>Repo.get_count_of_products_greater_than_x_by_user\<close> group (file 04, lines 756 to
  759 and 766 to 769): order products
  \<^verbatim>\<open>.join(Order, Order.order_id == OrderProducts.order_id).join(User)\<close>, grouped by
  \<^verbatim>\<open>User.telegram_id\<close>.
\<close>

definition line_orders :: "db \<Rightarrow> (OrderProducts \<times> Order) list" where
  "line_orders d =
     inner_join (order_products d) (orders d) (\<lambda>l ord. order_id ord = op_order_id l)"

definition user_rows :: "db \<Rightarrow> ((OrderProducts \<times> Order) \<times> User) list" where
  "user_rows d =
     inner_join (line_orders d) (users d) (\<lambda>(l, ord) u. telegram_id u = user_id ord)"

definition products_by_user :: "db \<Rightarrow> (int \<times> ((OrderProducts \<times> Order) \<times> User) list) list" where
  "products_by_user d = group_by (\<lambda>((l, ord), u). telegram_id u) (user_rows d)"

text \<open>\<^verbatim>\<open>func.sum(OrderProducts.quantity)\<close> over the rows of a group.\<close>

definition sum_quantity :: "((OrderProducts \<times> Order) \<times> User) list \<Rightarrow> int" where
  "sum_quantity g = sum_list (map (\<lambda>((l, ord), u). quantity l) g)"

text \<open>
  \<^verbatim>\<open>Repo.get_count_of_products_greater_than_x_by_user\<close> (file 04, lines 764 to 773):
  the groups \<^verbatim>\<open>.having(func.sum(OrderProducts.quantity) > greater_than)\<close>, each giving
  its sum, labelled \<^verbatim>\<open>quantity\<close>, and the \<^verbatim>\<open>full_name\<close> of its user, labelled
  \<^verbatim>\<open>name\<close>.
\<close>

definition get_count_of_products_greater_than_x_by_user ::
  "int \<Rightarrow> db \<Rightarrow> (int \<times> string) list" where
  "get_count_of_products_greater_than_x_by_user greater_than d =
     concat (map (\<lambda>(k, g).
         case g of
           [] \<Rightarrow> []
         | ((l, ord), u) # _ \<Rightarrow>
             if sum_quantity g > greater_than then [(sum_quantity g, full_name u)] else [])
       (products_by_user d))"

text \<open>
  The spec's "summed line-item quantity" of a user: the quantities of the line items of
  the orders whose \<^verbatim>\<open>user_id\<close> is the user's id, one for each line item and order it
  belongs to. It is stated on the tables alone, without the join and the grouping of the
  query.
\<close>

definition line_item_quantities :: "int \<Rightarrow> db \<Rightarrow> int list" where
  "line_item_quantities uid d =
     concat (map (\<lambda>l. map (\<lambda>ord. quantity l)
                       (filter (\<lambda>ord. order_id ord = op_order_id l \<and> user_id ord = uid)
                          (orders d)))
       (order_products d))"

section \<open>Table names\<close>

text \<open>
  \<^verbatim>\<open>str.lower()\<close> on a class name, an identifier of ASCII letters, digits and
  underscores: the capital letters move to their small ones.
\<close>

definition ascii_uppercase :: string where
  "ascii_uppercase = ''ABCDEFGHIJKLMNOPQRSTUVWXYZ''"

definition ascii_lowercase :: string where
  "ascii_lowercase = ''abcdefghijklmnopqrstuvwxyz''"

definition lower_char :: "char \<Rightarrow> char" where
  "lower_char c =
     (case map_of (zip ascii_uppercase ascii_lowercase) c of None \<Rightarrow> c | Some l \<Rightarrow> l)"

definition lower :: "string \<Rightarrow> string" where
  "lower s = map lower_char s"

text \<open>
  \<^verbatim>\<open>TableNameMixin.__tablename__\<close>, as each file declares it: file 02 (lines 301 to
  305), file 04 (lines 81 to 84), file 05 (lines 82 to 85) and file 06 (lines 88 to 91)
  return \<^verbatim>\<open>cls.__name__.lower() + "s"\<close>; the Alembic file 03 (lines 74 to 77) returns
  \<^verbatim>\<open>cls.__name__.lower()\<close>.
\<close>

datatype source_file = File02 | File03 | File04 | File05 | File06

fun tablename :: "source_file \<Rightarrow> string \<Rightarrow> string" where
  "tablename File02 name = lower name @ ''s''"
| "tablename File03 name = lower name"
| "tablename File04 name = lower name @ ''s''"
| "tablename File05 name = lower name @ ''s''"
| "tablename File06 name = lower name @ ''s''"

text \<open>The classes that are mapped with \<^verbatim>\<open>TableNameMixin\<close> in each file.\<close>

fun mixin_classes :: "source_file \<Rightarrow> string list" where
  "mixin_classes File02 = [''Orders'', ''Products'', ''OrderProducts'']"
| "mixin_classes File03 = [''Users'', ''Orders'', ''Products'', ''OrderProducts'']"
| "mixin_classes File04 = [''User'', ''Order'', ''Product'', ''OrderProducts'']"
| "mixin_classes File05 = [''User'', ''Order'', ''Product'', ''OrderProducts'']"
| "mixin_classes File06 = [''User'', ''Order'', ''Product'', ''OrderProducts'']"

section \<open>Example data\<close>

text \<open>
  The scenario of the spec: user A (id 1), user B (id 2) referred by A, one order of
  B with two line items, and one order of A with one line item.
\<close>

definition user_a :: User where
  "user_a = \<lparr>created_at = 0, updated_at = 0, telegram_id = 1, full_name = ''Ann Lee'',
     user_name = None, language_code = ''en'', referrer_id = None\<rparr>"

definition user_b :: User where
  "user_b = \<lparr>created_at = 1, updated_at = 1, telegram_id = 2, full_name = ''Bob Ray'',
     user_name = Some ''bob'', language_code = ''uk'', referrer_id = Some 1\<rparr>"

text \<open>A third user, with no order.\<close>

definition user_c :: User where
  "user_c = \<lparr>created_at = 5, updated_at = 5, telegram_id = 3, full_name = ''Cy Doe'',
     user_name = None, language_code = ''en'', referrer_id = None\<rparr>"

definition example_db :: db where
  "example_db =
     \<lparr>users = [user_a, user_b],
      orders = [\<lparr>created_at = 2, updated_at = 2, order_id = 1, user_id = 2\<rparr>,
                \<lparr>created_at = 3, updated_at = 3, order_id = 2, user_id = 1\<rparr>],
      products = [\<lparr>created_at = 4, updated_at = 4, product_id = 1, title = ''tea'',
                    description = None, price = 50000\<rparr>,
                  \<lparr>created_at = 4, updated_at = 4, product_id = 2, title = ''cup'',
                    description = Some ''a cup'', price = 70000\<rparr>,
                  \<lparr>created_at = 4, updated_at = 4, product_id = 3, title = ''pot'',
                    description = None, price = 90000\<rparr>],
      order_products = [\<lparr>op_order_id = 1, op_product_id = 1, quantity = 3\<rparr>,
                        \<lparr>op_order_id = 1, op_product_id = 2, quantity = 4\<rparr>,
                        \<lparr>op_order_id = 2, op_product_id = 2, quantity = 9\<rparr>],
      orders_seq = 3, products_seq = 4\<rparr>"

section \<open>The example data, step by step\<close>

text \<open>
  The example database is what the methods of \<^verbatim>\<open>Repo\<close> build from the empty one:
  two users, two orders, three products in one bulk insert, three line items.
\<close>

lemma example_db_built:
  "snd (add_order_product 2 2 9
    (snd (add_order_product 1 2 4
      (snd (add_order_product 1 1 3
        (snd (add_bulk_products 4
               [\<lparr>pv_title = Some ''tea'', pv_description = None, pv_price = Some 50000\<rparr>,
                \<lparr>pv_title = Some ''cup'', pv_description = Some ''a cup'',
                   pv_price = Some 70000\<rparr>,
                \<lparr>pv_title = Some ''pot'', pv_description = None, pv_price = Some 90000\<rparr>]
          (snd (create_new_order_for_user 3 1
            (snd (create_new_order_for_user 2 2
              (snd (add_user 1 2 ''Bob Ray'' ''uk'' (Some ''bob'') (Some 1)
                (snd (add_user 0 1 ''Ann Lee'' ''en'' None None empty_db)))))))))))))))
   = example_db"
  by (simp add: add_user_def insert_user_on_conflict_do_update_def execute_and_commit_def
      create_new_order_for_user_def insert_order_def add_order_product_def
      insert_order_product_def add_bulk_products_def referrer_exists_def first_def
      empty_db_def example_db_def user_a_def user_b_def Let_def)

lemma example_db_distinct: "distinct (map telegram_id (users example_db))"
  by (simp add: example_db_def user_a_def user_b_def)


section \<open>Creating a user twice\<close>

lemma rollback_same: "rollback d d = d"
  by (simp add: rollback_def)

lemma filter_key_distinct:
  "distinct (map f xs) \<Longrightarrow> x \<in> set xs \<Longrightarrow> filter (\<lambda>y. f y = f x) xs = [x]"
proof (induction xs)
  case Nil
  then show ?case by simp
next
  case (Cons a xs)
  show ?case
  proof (cases "x = a")
    case True
    have "f a \<notin> f ` set xs" using Cons.prems(1) by simp
    then have "\<forall>y \<in> set xs. f y \<noteq> f a" by (metis imageI)
    then have "filter (\<lambda>y. f y = f a) xs = []"
      by (simp add: filter_empty_conv)
    with True show ?thesis by simp
  next
    case False
    with Cons.prems have "x \<in> set xs" and "f a \<noteq> f x" by auto
    with Cons show ?thesis by simp
  qed
qed

lemma telegram_id_upsert_row: "telegram_id (upsert_row tid un fn u) = telegram_id u"
  by (simp add: upsert_row_def)

lemma telegram_id_comp_upsert_row: "telegram_id \<circ> upsert_row tid un fn = telegram_id"
  by (simp add: fun_eq_iff telegram_id_upsert_row)

lemma map_telegram_id_upsert: "map telegram_id (map (upsert_row tid un fn) us) = map telegram_id us"
  by (simp add: telegram_id_comp_upsert_row)

lemma add_user_conflict:
  assumes "\<exists>u \<in> set (users d). telegram_id u = tid"
  shows "add_user now tid fn lc un ref d =
     (Inr (first (filter (\<lambda>u. telegram_id u = tid) (map (upsert_row tid un fn) (users d)))),
      d\<lparr>users := map (upsert_row tid un fn) (users d)\<rparr>)"
  using assms
  by (simp add: add_user_def execute_and_commit_def insert_user_on_conflict_do_update_def
      Let_def)

lemma add_user_fresh:
  assumes "\<not> (\<exists>u \<in> set (users d). telegram_id u = tid)"
  shows "add_user now tid fn lc un ref d =
     (let row = \<lparr>created_at = now, updated_at = now, telegram_id = tid,
                   full_name = fn, user_name = un, language_code = lc, referrer_id = ref\<rparr>
      in if referrer_exists ref (users d @ [row])
         then (Inr (Some row), d\<lparr>users := users d @ [row]\<rparr>)
         else (Inl ForeignKeyViolation, d))"
  using assms
  by (simp add: add_user_def execute_and_commit_def insert_user_on_conflict_do_update_def
      Let_def first_def rollback_same)

lemma add_user_ok_present:
  assumes "add_user now tid fn lc un ref d = (Inr r, d1)"
  shows "\<exists>u \<in> set (users d1). telegram_id u = tid"
proof (cases "\<exists>u \<in> set (users d). telegram_id u = tid")
  case True
  then obtain u where u: "u \<in> set (users d)" "telegram_id u = tid" by blast
  from True assms have "users d1 = map (upsert_row tid un fn) (users d)"
    by (auto simp: add_user_conflict)
  moreover have "upsert_row tid un fn u \<in> set (map (upsert_row tid un fn) (users d))"
    using u by simp
  moreover have "telegram_id (upsert_row tid un fn u) = tid"
    using u by (simp add: telegram_id_upsert_row)
  ultimately show ?thesis by metis
next
  case False
  with assms show ?thesis
    by (auto simp: add_user_fresh Let_def split: if_splits)
qed

lemma add_user_ok_distinct:
  assumes "distinct (map telegram_id (users d))"
    and "add_user now tid fn lc un ref d = (Inr r, d1)"
  shows "distinct (map telegram_id (users d1))"
proof (cases "\<exists>u \<in> set (users d). telegram_id u = tid")
  case True
  with assms(2) have "users d1 = map (upsert_row tid un fn) (users d)"
    by (auto simp: add_user_conflict)
  with assms(1) show ?thesis by (simp add: telegram_id_comp_upsert_row)
next
  case False
  with assms show ?thesis
    by (auto simp: add_user_fresh Let_def split: if_splits)
qed

lemma add_user_on_present:
  assumes dist: "distinct (map telegram_id (users d))"
    and u0: "u0 \<in> set (users d)" "telegram_id u0 = tid"
  shows "add_user now tid fn lc un ref d =
     (Inr (Some (u0\<lparr>user_name := un, full_name := fn\<rparr>)),
      d\<lparr>users := map (upsert_row tid un fn) (users d)\<rparr>)"
    and "filter (\<lambda>u. telegram_id u = tid) (map (upsert_row tid un fn) (users d)) =
      [u0\<lparr>user_name := un, full_name := fn\<rparr>]"
proof -
  let ?us = "map (upsert_row tid un fn) (users d)"
  have d': "distinct (map telegram_id ?us)"
    using dist by (simp add: telegram_id_comp_upsert_row)
  have in': "upsert_row tid un fn u0 \<in> set ?us" using u0 by simp
  have "filter (\<lambda>y. telegram_id y = telegram_id (upsert_row tid un fn u0)) ?us = [upsert_row tid un fn u0]"
    by (rule filter_key_distinct[OF d' in'])
  then show f: "filter (\<lambda>u. telegram_id u = tid) ?us = [u0\<lparr>user_name := un, full_name := fn\<rparr>]"
    using u0 by (simp add: upsert_row_def)
  have "\<exists>u \<in> set (users d). telegram_id u = tid" using u0 by blast
  then show "add_user now tid fn lc un ref d =
     (Inr (Some (u0\<lparr>user_name := un, full_name := fn\<rparr>)), d\<lparr>users := ?us\<rparr>)"
    by (simp add: add_user_conflict f first_def)
qed

text \<open>
  C1. Calling \<^verbatim>\<open>add_user\<close> a second time with the same primary key does not fail:
  whatever the arguments of the two calls, once the first call has succeeded the second
  one returns a row, that row is afterwards the only row of its \<^verbatim>\<open>telegram_id\<close>, and its
  \<^verbatim>\<open>full_name\<close> and \<^verbatim>\<open>user_name\<close> are those of the second call.
\<close>

theorem add_user_twice_same_key:
  assumes "distinct (map telegram_id (users d))"
    and "add_user now1 tid fn1 lc1 un1 ref1 d = (Inr r1, d1)"
  shows "\<exists>u d2. add_user now2 tid fn2 lc2 un2 ref2 d1 = (Inr (Some u), d2) \<and>
           filter (\<lambda>x. telegram_id x = tid) (users d2) = [u] \<and>
           full_name u = fn2 \<and> user_name u = un2"
proof -
  from assms have dist1: "distinct (map telegram_id (users d1))"
    by (rule add_user_ok_distinct)
  from assms(2) obtain u0 where u0: "u0 \<in> set (users d1)" "telegram_id u0 = tid"
    using add_user_ok_present by blast
  let ?u = "u0\<lparr>user_name := un2, full_name := fn2\<rparr>"
  let ?d2 = "d1\<lparr>users := map (upsert_row tid un2 fn2) (users d1)\<rparr>"
  have "add_user now2 tid fn2 lc2 un2 ref2 d1 = (Inr (Some ?u), ?d2)"
    by (rule add_user_on_present(1)[OF dist1 u0])
  moreover have "filter (\<lambda>x. telegram_id x = tid) (users ?d2) = [?u]"
    using add_user_on_present(2)[OF dist1 u0] by simp
  ultimately show ?thesis by force
qed

theorem add_user_twice_same_key_witness:
  "\<exists>u d2. add_user 6 7 ''Juan P'' ''en'' None (Some 99)
             (snd (add_user 5 7 ''Juan Perez'' ''es'' (Some ''juanpe'') (Some 2) example_db)) =
             (Inr (Some u), d2) \<and>
           filter (\<lambda>x. telegram_id x = 7) (users d2) = [u] \<and>
           full_name u = ''Juan P'' \<and> user_name u = None"
proof -
  obtain r1 d1 where first_call:
    "add_user 5 7 ''Juan Perez'' ''es'' (Some ''juanpe'') (Some 2) example_db = (Inr r1, d1)"
    by (simp add: add_user_fresh example_db_def user_a_def user_b_def referrer_exists_def Let_def)
  show ?thesis
    using add_user_twice_same_key[OF example_db_distinct first_call,
        of 6 "''Juan P''" "''en''" None "Some 99"] first_call
    by simp
qed


lemma filter_rest_upsert:
  "filter (\<lambda>x. telegram_id x \<noteq> tid) (map (upsert_row tid un fn) us) =
   filter (\<lambda>x. telegram_id x \<noteq> tid) us"
  by (induction us) (simp_all add: upsert_row_def)

text \<open>
  C9. When \<^verbatim>\<open>add_user\<close> meets a row with the same \<^verbatim>\<open>telegram_id\<close>, the row it
  returns keeps the \<^verbatim>\<open>language_code\<close>, the \<^verbatim>\<open>referrer_id\<close> and both timestamps of
  the existing row, whatever \<^verbatim>\<open>language_code\<close> and \<^verbatim>\<open>referrer_id\<close> the call passes;
  only \<^verbatim>\<open>user_name\<close> and \<^verbatim>\<open>full_name\<close> are overwritten. The other rows of users
  and the other tables stay as they were.
\<close>

theorem add_user_conflict_frame:
  assumes "distinct (map telegram_id (users d))"
    and "u0 \<in> set (users d)" and "telegram_id u0 = tid"
  shows "\<exists>u' d'. add_user now tid fn lc un ref d = (Inr (Some u'), d') \<and>
           language_code u' = language_code u0 \<and> referrer_id u' = referrer_id u0 \<and>
           created_at u' = created_at u0 \<and> updated_at u' = updated_at u0 \<and>
           telegram_id u' = tid \<and> user_name u' = un \<and> full_name u' = fn \<and>
           filter (\<lambda>x. telegram_id x = tid) (users d') = [u'] \<and>
           filter (\<lambda>x. telegram_id x \<noteq> tid) (users d') =
             filter (\<lambda>x. telegram_id x \<noteq> tid) (users d) \<and>
           orders d' = orders d \<and> products d' = products d \<and>
           order_products d' = order_products d"
proof -
  let ?u = "u0\<lparr>user_name := un, full_name := fn\<rparr>"
  let ?d = "d\<lparr>users := map (upsert_row tid un fn) (users d)\<rparr>"
  have call: "add_user now tid fn lc un ref d = (Inr (Some ?u), ?d)"
    by (rule add_user_on_present(1)[OF assms])
  have hit: "filter (\<lambda>x. telegram_id x = tid) (users ?d) = [?u]"
    using add_user_on_present(2)[OF assms] by simp
  have rest: "filter (\<lambda>x. telegram_id x \<noteq> tid) (users ?d) =
      filter (\<lambda>x. telegram_id x \<noteq> tid) (users d)"
    by (simp add: filter_rest_upsert)
  show ?thesis
    using call hit rest assms(3) by (intro exI[of _ ?u] exI[of _ ?d]) simp
qed

theorem add_user_conflict_frame_witness:
  "\<exists>u' d'. add_user 9 2 ''Robert Ray'' ''de'' None (Some 77) example_db = (Inr (Some u'), d') \<and>
           language_code u' = ''uk'' \<and> referrer_id u' = Some 1 \<and>
           created_at u' = 1 \<and> updated_at u' = 1 \<and>
           telegram_id u' = 2 \<and> user_name u' = None \<and> full_name u' = ''Robert Ray'' \<and>
           filter (\<lambda>x. telegram_id x = 2) (users d') = [u'] \<and>
           filter (\<lambda>x. telegram_id x \<noteq> 2) (users d') = [user_a] \<and>
           orders d' = orders example_db \<and> products d' = products example_db \<and>
           order_products d' = order_products example_db"
proof -
  have in_db: "user_b \<in> set (users example_db)" by (simp add: example_db_def)
  have key: "telegram_id user_b = 2" by (simp add: user_b_def)
  have rest: "filter (\<lambda>x. telegram_id x \<noteq> 2) (users example_db) = [user_a]"
    by (simp add: example_db_def user_a_def user_b_def)
  show ?thesis
    using add_user_conflict_frame[OF example_db_distinct in_db key,
        of 9 "''Robert Ray''" "''de''" None "Some 77"] rest
    by (simp add: user_b_def)
qed

section \<open>Updating the referrer\<close>

lemma telegram_id_set_referrer_row: "telegram_id (set_referrer_row now uid ref u) = telegram_id u"
  by (simp add: set_referrer_row_def)

lemma telegram_id_comp_set_referrer_row:
  "telegram_id \<circ> set_referrer_row now uid ref = telegram_id"
  by (simp add: fun_eq_iff telegram_id_set_referrer_row)

lemma map_set_referrer_row_absent:
  "\<not> (\<exists>u \<in> set us. telegram_id u = uid) \<Longrightarrow> map (set_referrer_row now uid ref) us = us"
  by (induction us) (simp_all add: set_referrer_row_def)

lemma filter_absent:
  "\<not> (\<exists>u \<in> set us. telegram_id u = uid) \<Longrightarrow> filter (\<lambda>u. telegram_id u = uid) us = []"
  by (induction us) simp_all

lemma set_new_referrer_absent:
  assumes "\<not> (\<exists>u \<in> set (users d). telegram_id u = uid)"
  shows "set_new_referrer now uid ref d = (Inr None, d)"
  using assms
  by (simp add: set_new_referrer_def execute_and_commit_def update_user_referrer_def Let_def
      map_set_referrer_row_absent filter_absent first_def)

lemma filter_set_referrer_row:
  "filter (\<lambda>u. telegram_id u = uid) (map (set_referrer_row now uid ref) us) =
   map (\<lambda>u. u\<lparr>referrer_id := Some ref, updated_at := now\<rparr>) (filter (\<lambda>u. telegram_id u = uid) us)"
  by (induction us) (simp_all add: set_referrer_row_def)

lemma set_new_referrer_result:
  "set_new_referrer now uid ref d =
     (let rows = map (\<lambda>u. u\<lparr>referrer_id := Some ref, updated_at := now\<rparr>)
                   (filter (\<lambda>u. telegram_id u = uid) (users d))
      in if rows = [] \<or> (\<exists>u \<in> set (users d). telegram_id u = ref)
         then (Inr (first rows), d\<lparr>users := map (set_referrer_row now uid ref) (users d)\<rparr>)
         else (Inl ForeignKeyViolation, d))"
proof -
  have ex: "(\<exists>u \<in> set (map (set_referrer_row now uid ref) (users d)). telegram_id u = ref) \<longleftrightarrow>
      (\<exists>u \<in> set (users d). telegram_id u = ref)"
    by (simp add: telegram_id_set_referrer_row)
  show ?thesis
    unfolding set_new_referrer_def execute_and_commit_def update_user_referrer_def Let_def
    by (simp add: filter_set_referrer_row referrer_exists_def ex rollback_def
        del: set_map)
qed


text \<open>
  C6. For a \<^verbatim>\<open>user_id\<close> that is the key of no user, \<^verbatim>\<open>set_new_referrer\<close> updates
  zero rows: it raises nothing, returns \<^verbatim>\<open>None\<close> and leaves the database as it was.
  That outcome differs from a successful update: when a user of that key exists the
  result is never \<^verbatim>\<open>None\<close>, and a row that is returned is the updated row of the
  table, carrying the key, the new referrer and the new \<^verbatim>\<open>updated_at\<close>. With unique
  keys and an existing referrer the call succeeds and returns the updated row.
\<close>

theorem set_new_referrer_outcomes:
  "(\<not> (\<exists>u \<in> set (users d). telegram_id u = uid) \<longrightarrow>
      set_new_referrer now uid ref d = (Inr None, d)) \<and>
   ((\<exists>u \<in> set (users d). telegram_id u = uid) \<longrightarrow>
      fst (set_new_referrer now uid ref d) \<noteq> Inr None) \<and>
   (\<forall>u d'. set_new_referrer now uid ref d = (Inr (Some u), d') \<longrightarrow>
      u \<in> set (users d') \<and> telegram_id u = uid \<and> referrer_id u = Some ref \<and>
      updated_at u = now) \<and>
   (distinct (map telegram_id (users d)) \<and> u0 \<in> set (users d) \<and> telegram_id u0 = uid \<and>
    (\<exists>r \<in> set (users d). telegram_id r = ref) \<longrightarrow>
      set_new_referrer now uid ref d =
        (Inr (Some (u0\<lparr>referrer_id := Some ref, updated_at := now\<rparr>)),
         d\<lparr>users := map (set_referrer_row now uid ref) (users d)\<rparr>))"
proof -
  have absent: "\<not> (\<exists>u \<in> set (users d). telegram_id u = uid) \<longrightarrow>
      set_new_referrer now uid ref d = (Inr None, d)"
    by (simp add: set_new_referrer_absent)
  have present: "(\<exists>u \<in> set (users d). telegram_id u = uid) \<longrightarrow>
      fst (set_new_referrer now uid ref d) \<noteq> Inr None"
  proof
    assume "\<exists>u \<in> set (users d). telegram_id u = uid"
    then have "filter (\<lambda>u. telegram_id u = uid) (users d) \<noteq> []"
      by (simp add: filter_empty_conv)
    then obtain r rs where "filter (\<lambda>u. telegram_id u = uid) (users d) = r # rs"
      by (cases "filter (\<lambda>u. telegram_id u = uid) (users d)") auto
    then show "fst (set_new_referrer now uid ref d) \<noteq> Inr None"
      by (simp add: set_new_referrer_result first_def)
  qed
  have returned: "\<forall>u d'. set_new_referrer now uid ref d = (Inr (Some u), d') \<longrightarrow>
      u \<in> set (users d') \<and> telegram_id u = uid \<and> referrer_id u = Some ref \<and>
      updated_at u = now"
  proof (intro allI impI)
    fix u d'
    assume res: "set_new_referrer now uid ref d = (Inr (Some u), d')"
    let ?rows = "map (\<lambda>u. u\<lparr>referrer_id := Some ref, updated_at := now\<rparr>)
                     (filter (\<lambda>u. telegram_id u = uid) (users d))"
    from res have d': "d' = d\<lparr>users := map (set_referrer_row now uid ref) (users d)\<rparr>"
      and fst: "first ?rows = Some u"
      by (auto simp: set_new_referrer_result Let_def split: if_splits)
    from fst obtain a rest where ar: "filter (\<lambda>u. telegram_id u = uid) (users d) = a # rest"
      and ua: "u = a\<lparr>referrer_id := Some ref, updated_at := now\<rparr>"
      by (cases "filter (\<lambda>u. telegram_id u = uid) (users d)") (auto simp: first_def)
    have "a \<in> set (filter (\<lambda>u. telegram_id u = uid) (users d))" by (simp add: ar)
    then have a: "a \<in> set (users d)" "telegram_id a = uid" by simp_all
    have "set_referrer_row now uid ref a = u" using a ua by (simp add: set_referrer_row_def)
    with a(1) d' have "u \<in> set (users d')" by force
    with a ua show "u \<in> set (users d') \<and> telegram_id u = uid \<and> referrer_id u = Some ref \<and>
        updated_at u = now" by simp
  qed
  have updated: "distinct (map telegram_id (users d)) \<and> u0 \<in> set (users d) \<and>
      telegram_id u0 = uid \<and> (\<exists>r \<in> set (users d). telegram_id r = ref) \<longrightarrow>
      set_new_referrer now uid ref d =
        (Inr (Some (u0\<lparr>referrer_id := Some ref, updated_at := now\<rparr>)),
         d\<lparr>users := map (set_referrer_row now uid ref) (users d)\<rparr>)"
  proof
    assume h: "distinct (map telegram_id (users d)) \<and> u0 \<in> set (users d) \<and>
      telegram_id u0 = uid \<and> (\<exists>r \<in> set (users d). telegram_id r = ref)"
    then have "filter (\<lambda>y. telegram_id y = telegram_id u0) (users d) = [u0]"
      by (intro filter_key_distinct) simp_all
    with h show "set_new_referrer now uid ref d =
          (Inr (Some (u0\<lparr>referrer_id := Some ref, updated_at := now\<rparr>)),
           d\<lparr>users := map (set_referrer_row now uid ref) (users d)\<rparr>)"
      by (auto simp: set_new_referrer_result first_def)
  qed
  from absent present returned updated show ?thesis by (intro conjI)
qed

theorem set_new_referrer_outcomes_witness:
  "set_new_referrer 9 7 2 example_db = (Inr None, example_db) \<and>
   fst (set_new_referrer 9 1 2 example_db) \<noteq> Inr None \<and>
   set_new_referrer 9 1 2 example_db =
     (Inr (Some (user_a\<lparr>referrer_id := Some 2, updated_at := 9\<rparr>)),
      example_db\<lparr>users := [user_a\<lparr>referrer_id := Some 2, updated_at := 9\<rparr>, user_b]\<rparr>) \<and>
   user_a\<lparr>referrer_id := Some 2, updated_at := 9\<rparr> \<in>
     set (users (snd (set_new_referrer 9 1 2 example_db)))"
  using set_new_referrer_outcomes[of example_db 7 9 2 user_a]
    set_new_referrer_outcomes[of example_db 1 9 2 user_a]
  by (simp add: example_db_def user_a_def user_b_def set_referrer_row_def)

section \<open>Deleting a user\<close>

lemma telegram_id_set_null_row: "telegram_id (set_null_row uid u) = telegram_id u"
  by (simp add: set_null_row_def)

lemma delete_user_by_id_result:
  "delete_user_by_id uid d =
     (Inr (),
      if filter (\<lambda>u. telegram_id u = uid) (users d) = [] then d
      else delete_orders_where (\<lambda>ord. user_id ord = uid)
             (d\<lparr>users := map (set_null_row uid) (filter (\<lambda>u. telegram_id u \<noteq> uid) (users d))\<rparr>))"
  by (simp add: delete_user_by_id_def execute_and_commit_def delete_from_users_def Let_def)

lemma users_delete_orders_where: "users (delete_orders_where P d) = users d"
  by (simp add: delete_orders_where_def Let_def)

lemma products_delete_orders_where: "products (delete_orders_where P d) = products d"
  by (simp add: delete_orders_where_def Let_def)

lemma orders_delete_orders_where:
  "orders (delete_orders_where P d) = filter (\<lambda>ord. \<not> P ord) (orders d)"
  by (simp add: delete_orders_where_def Let_def)

lemma order_products_delete_orders_where:
  "order_products (delete_orders_where P d) =
     filter (\<lambda>l. op_order_id l \<notin> order_id ` {ord \<in> set (orders d). P ord}) (order_products d)"
  by (simp add: delete_orders_where_def Let_def)

lemma no_user_after_delete:
  "filter (\<lambda>u. telegram_id u = uid) (users (snd (delete_user_by_id uid d))) = []"
proof (cases "filter (\<lambda>u. telegram_id u = uid) (users d) = []")
  case True
  then show ?thesis by (simp add: delete_user_by_id_result)
next
  case False
  have "filter (\<lambda>u. telegram_id u = uid)
          (map (set_null_row uid) (filter (\<lambda>u. telegram_id u \<noteq> uid) (users d))) = []"
    by (simp add: filter_empty_conv telegram_id_set_null_row)
  with False show ?thesis
    by (simp add: delete_user_by_id_result users_delete_orders_where)
qed

text \<open>
  C8. \<^verbatim>\<open>delete_user_by_id\<close> never raises. Deleting an id that is the key of no user
  leaves the database as it was, and deleting the same id a second time gives the
  result and the database of deleting it once.
\<close>

theorem delete_user_by_id_idempotent:
  "fst (delete_user_by_id uid d) = Inr () \<and>
   (\<not> (\<exists>u \<in> set (users d). telegram_id u = uid) \<longrightarrow> delete_user_by_id uid d = (Inr (), d)) \<and>
   delete_user_by_id uid (snd (delete_user_by_id uid d)) = delete_user_by_id uid d"
proof (intro conjI impI)
  show "fst (delete_user_by_id uid d) = Inr ()"
    by (simp add: delete_user_by_id_result)
next
  assume "\<not> (\<exists>u \<in> set (users d). telegram_id u = uid)"
  then have "filter (\<lambda>u. telegram_id u = uid) (users d) = []"
    by (simp add: filter_empty_conv)
  then show "delete_user_by_id uid d = (Inr (), d)"
    by (simp add: delete_user_by_id_result)
next
  let ?d1 = "snd (delete_user_by_id uid d)"
  have once: "delete_user_by_id uid d = (Inr (), ?d1)"
    by (simp add: delete_user_by_id_result)
  have "delete_user_by_id uid ?d1 = (Inr (), ?d1)"
    using no_user_after_delete[of uid d]
    by (subst delete_user_by_id_result) simp
  with once show "delete_user_by_id uid ?d1 = delete_user_by_id uid d" by simp
qed

theorem delete_user_by_id_idempotent_witness:
  "delete_user_by_id 7 example_db = (Inr (), example_db) \<and>
   fst (delete_user_by_id 1 example_db) = Inr () \<and>
   users (snd (delete_user_by_id 1 example_db)) = [user_b\<lparr>referrer_id := None\<rparr>] \<and>
   delete_user_by_id 1 (snd (delete_user_by_id 1 example_db)) = delete_user_by_id 1 example_db"
proof -
  have "users (snd (delete_user_by_id 1 example_db)) = [user_b\<lparr>referrer_id := None\<rparr>]"
    by (simp add: delete_user_by_id_result users_delete_orders_where example_db_def
        user_a_def user_b_def set_null_row_def)
  moreover have "\<not> (\<exists>u \<in> set (users example_db). telegram_id u = 7)"
    by (simp add: example_db_def user_a_def user_b_def)
  ultimately show ?thesis
    using delete_user_by_id_idempotent[of 7 example_db]
      delete_user_by_id_idempotent[of 1 example_db]
    by simp
qed

section \<open>Deleting a referrer\<close>

lemma key_inj:
  "distinct (map f xs) \<Longrightarrow> x \<in> set xs \<Longrightarrow> y \<in> set xs \<Longrightarrow> f x = f y \<Longrightarrow> x = y"
  by (meson distinct_map inj_onD)

lemma filter_map_set_null_row:
  "filter (\<lambda>u. telegram_id u = k) (map (set_null_row uid) us) =
   map (set_null_row uid) (filter (\<lambda>u. telegram_id u = k) us)"
  by (induction us) (simp_all add: telegram_id_set_null_row)

text \<open>
  C2. Let A and B be two users, B's \<^verbatim>\<open>referrer_id\<close> pointing to A, in a database with
  unique keys. Deleting A with \<^verbatim>\<open>delete_user_by_id\<close> succeeds; afterwards B's row is
  still there, with its \<^verbatim>\<open>referrer_id\<close> absent and every other column as before, and
  B's orders and the line items of B's orders are those from before the call.
\<close>

theorem delete_referrer_sets_null:
  assumes users_pk: "distinct (map telegram_id (users d))"
    and orders_pk: "distinct (map order_id (orders d))"
    and a: "a \<in> set (users d)"
    and b: "b \<in> set (users d)"
    and ref: "referrer_id b = Some (telegram_id a)"
    and ab: "telegram_id b \<noteq> telegram_id a"
  shows "\<exists>d'. delete_user_by_id (telegram_id a) d = (Inr (), d') \<and>
           filter (\<lambda>u. telegram_id u = telegram_id b) (users d') = [b\<lparr>referrer_id := None\<rparr>] \<and>
           filter (\<lambda>ord. user_id ord = telegram_id b) (orders d') =
             filter (\<lambda>ord. user_id ord = telegram_id b) (orders d) \<and>
           filter (\<lambda>l. op_order_id l \<in>
                     set (map order_id (filter (\<lambda>ord. user_id ord = telegram_id b) (orders d))))
               (order_products d') =
             filter (\<lambda>l. op_order_id l \<in>
                     set (map order_id (filter (\<lambda>ord. user_id ord = telegram_id b) (orders d))))
               (order_products d)"
proof -
  let ?aid = "telegram_id a" and ?bid = "telegram_id b"
  let ?kept = "filter (\<lambda>u. telegram_id u \<noteq> ?aid) (users d)"
  let ?work = "d\<lparr>users := map (set_null_row ?aid) ?kept\<rparr>"
  let ?d' = "delete_orders_where (\<lambda>ord. user_id ord = ?aid) ?work"
  have "filter (\<lambda>u. telegram_id u = ?aid) (users d) \<noteq> []"
    using a by (auto simp: filter_empty_conv)
  then have call: "delete_user_by_id ?aid d = (Inr (), ?d')"
    by (simp add: delete_user_by_id_result)
  have "filter (\<lambda>u. telegram_id u = ?bid) ?kept = filter (\<lambda>u. telegram_id u = ?bid) (users d)"
    using ab by (auto intro: filter_cong)
  also have "\<dots> = [b]"
    by (rule filter_key_distinct[OF users_pk b])
  finally have "filter (\<lambda>u. telegram_id u = ?bid) (users ?d') = [set_null_row ?aid b]"
    by (simp add: users_delete_orders_where filter_map_set_null_row)
  then have brow: "filter (\<lambda>u. telegram_id u = ?bid) (users ?d') = [b\<lparr>referrer_id := None\<rparr>]"
    using ref by (simp add: set_null_row_def)
  have bords: "filter (\<lambda>ord. user_id ord = ?bid) (orders ?d') =
      filter (\<lambda>ord. user_id ord = ?bid) (orders d)"
    using ab by (auto simp: orders_delete_orders_where intro: filter_cong)
  have keep: "op_order_id l \<notin> order_id ` {ord \<in> set (orders d). user_id ord = ?aid}"
    if l: "op_order_id l \<in> set (map order_id (filter (\<lambda>ord. user_id ord = ?bid) (orders d)))"
    for l :: OrderProducts
  proof
    assume "op_order_id l \<in> order_id ` {ord \<in> set (orders d). user_id ord = ?aid}"
    then obtain oa where oa: "oa \<in> set (orders d)" "user_id oa = ?aid"
      "op_order_id l = order_id oa" by auto
    from l obtain ob where ob: "ob \<in> set (orders d)" "user_id ob = ?bid"
      "op_order_id l = order_id ob" by auto
    from oa ob have "oa = ob"
      by (intro key_inj[OF orders_pk]) simp_all
    with oa ob ab show False by simp
  qed
  have blines: "filter (\<lambda>l. op_order_id l \<in>
                     set (map order_id (filter (\<lambda>ord. user_id ord = ?bid) (orders d))))
               (order_products ?d') =
             filter (\<lambda>l. op_order_id l \<in>
                     set (map order_id (filter (\<lambda>ord. user_id ord = ?bid) (orders d))))
               (order_products d)"
    unfolding order_products_delete_orders_where
    using keep by (auto intro: filter_cong)
  from call brow bords blines show ?thesis by blast
qed


theorem delete_referrer_sets_null_witness:
  "\<exists>d'. delete_user_by_id 1 example_db = (Inr (), d') \<and>
     filter (\<lambda>u. telegram_id u = 2) (users d') = [user_b\<lparr>referrer_id := None\<rparr>] \<and>
     filter (\<lambda>ord. user_id ord = 2) (orders d') =
       [\<lparr>created_at = 2, updated_at = 2, order_id = 1, user_id = 2\<rparr>] \<and>
     filter (\<lambda>l. op_order_id l \<in> set [1]) (order_products d') =
       [\<lparr>op_order_id = 1, op_product_id = 1, quantity = 3\<rparr>,
        \<lparr>op_order_id = 1, op_product_id = 2, quantity = 4\<rparr>]"
proof -
  have users_pk: "distinct (map telegram_id (users example_db))"
    by (rule example_db_distinct)
  have orders_pk: "distinct (map order_id (orders example_db))"
    by (simp add: example_db_def)
  have a: "user_a \<in> set (users example_db)" and b: "user_b \<in> set (users example_db)"
    by (simp_all add: example_db_def)
  have ref: "referrer_id user_b = Some (telegram_id user_a)"
    by (simp add: user_a_def user_b_def)
  have ab: "telegram_id user_b \<noteq> telegram_id user_a"
    by (simp add: user_a_def user_b_def)
  have ida: "telegram_id user_a = 1" and idb: "telegram_id user_b = 2"
    by (simp_all add: user_a_def user_b_def)
  have ords: "filter (\<lambda>ord. user_id ord = 2) (orders example_db) =
      [\<lparr>created_at = 2, updated_at = 2, order_id = 1, user_id = 2\<rparr>]"
    by (simp add: example_db_def)
  have lines: "filter (\<lambda>l. op_order_id l = 1) (order_products example_db) =
       [\<lparr>op_order_id = 1, op_product_id = 1, quantity = 3\<rparr>,
        \<lparr>op_order_id = 1, op_product_id = 2, quantity = 4\<rparr>]"
    by (simp add: example_db_def)
  show ?thesis
    using delete_referrer_sets_null[OF users_pk orders_pk a b ref ab]
    by (simp add: ida idb ords lines)
qed

section \<open>Deleting an order, deleting a product\<close>

text \<open>
  C3. Deleting an order that exists succeeds and removes that order and all of its line
  items, and nothing else. Deleting a product that exists and is referenced by some
  line item fails with a foreign-key violation and leaves the database as it was.
\<close>

theorem delete_order_cascades_delete_product_restricted:
  "((\<exists>ord \<in> set (orders d). order_id ord = oid) \<longrightarrow>
      (\<exists>d'. delete_order_by_id oid d = (Inr (), d') \<and>
         filter (\<lambda>l. op_order_id l = oid) (order_products d') = [] \<and>
         order_products d' = filter (\<lambda>l. op_order_id l \<noteq> oid) (order_products d) \<and>
         orders d' = filter (\<lambda>ord. order_id ord \<noteq> oid) (orders d) \<and>
         users d' = users d \<and> products d' = products d)) \<and>
   ((\<exists>p \<in> set (products d). product_id p = pid) \<and>
    (\<exists>l \<in> set (order_products d). op_product_id l = pid) \<longrightarrow>
      delete_product_by_id pid d = (Inl ForeignKeyViolation, d))"
proof (intro conjI impI)
  assume ex: "\<exists>ord \<in> set (orders d). order_id ord = oid"
  let ?d' = "delete_orders_where (\<lambda>ord. order_id ord = oid) d"
  have call: "delete_order_by_id oid d = (Inr (), ?d')"
    by (simp add: delete_order_by_id_def execute_and_commit_def)
  have lines: "order_products ?d' = filter (\<lambda>l. op_order_id l \<noteq> oid) (order_products d)"
    unfolding order_products_delete_orders_where
    by (rule filter_cong) (use ex in auto)
  then have none: "filter (\<lambda>l. op_order_id l = oid) (order_products ?d') = []"
    by (simp add: filter_empty_conv)
  from call lines none
  show "\<exists>d'. delete_order_by_id oid d = (Inr (), d') \<and>
         filter (\<lambda>l. op_order_id l = oid) (order_products d') = [] \<and>
         order_products d' = filter (\<lambda>l. op_order_id l \<noteq> oid) (order_products d) \<and>
         orders d' = filter (\<lambda>ord. order_id ord \<noteq> oid) (orders d) \<and>
         users d' = users d \<and> products d' = products d"
    by (intro exI[of _ ?d'])
      (simp add: orders_delete_orders_where users_delete_orders_where
        products_delete_orders_where)
next
  assume h: "(\<exists>p \<in> set (products d). product_id p = pid) \<and>
    (\<exists>l \<in> set (order_products d). op_product_id l = pid)"
  then have "filter (\<lambda>p. product_id p = pid) (products d) \<noteq> []"
    by (simp add: filter_empty_conv)
  with h show "delete_product_by_id pid d = (Inl ForeignKeyViolation, d)"
    by (simp add: delete_product_by_id_def execute_and_commit_def delete_from_products_def
        rollback_same)
qed

theorem delete_order_cascades_delete_product_restricted_witness:
  "(\<exists>d'. delete_order_by_id 1 example_db = (Inr (), d') \<and>
      filter (\<lambda>l. op_order_id l = 1) (order_products d') = [] \<and>
      order_products d' = [\<lparr>op_order_id = 2, op_product_id = 2, quantity = 9\<rparr>] \<and>
      orders d' = [\<lparr>created_at = 3, updated_at = 3, order_id = 2, user_id = 1\<rparr>] \<and>
      users d' = users example_db \<and> products d' = products example_db) \<and>
   delete_product_by_id 2 example_db = (Inl ForeignKeyViolation, example_db)"
proof -
  have ord: "\<exists>ord \<in> set (orders example_db). order_id ord = 1"
    by (simp add: example_db_def)
  have prod: "(\<exists>p \<in> set (products example_db). product_id p = 2) \<and>
    (\<exists>l \<in> set (order_products example_db). op_product_id l = 2)"
    by (simp add: example_db_def)
  have lines: "filter (\<lambda>l. op_order_id l \<noteq> 1) (order_products example_db) =
      [\<lparr>op_order_id = 2, op_product_id = 2, quantity = 9\<rparr>]"
    by (simp add: example_db_def)
  have ords: "filter (\<lambda>ord. order_id ord \<noteq> 1) (orders example_db) =
      [\<lparr>created_at = 3, updated_at = 3, order_id = 2, user_id = 1\<rparr>]"
    by (simp add: example_db_def)
  show ?thesis
    using delete_order_cascades_delete_product_restricted[of example_db 1 2] ord prod
    by (simp add: lines ords)
qed

section \<open>Inserting products in bulk\<close>

lemma insert_products_ok:
  "insert_products now vs d = (Inr rows, w) \<Longrightarrow>
     products w = products d @ rows \<and>
     map (\<lambda>r. (Some (title r), description r, Some (price r))) rows =
       map (\<lambda>v. (pv_title v, pv_description v, pv_price v)) vs \<and>
     map product_id rows = map (\<lambda>i. products_seq d + int i) [0..<length vs] \<and>
     users w = users d \<and> orders w = orders d \<and> order_products w = order_products d"
proof (induction vs arbitrary: d rows w)
  case Nil
  then show ?case by simp
next
  case (Cons v vs)
  from Cons.prems obtain t p where tp: "pv_title v = Some t" "pv_price v = Some p"
    by (auto simp: Let_def split: option.splits)
  let ?row = "\<lparr>created_at = now, updated_at = now, product_id = products_seq d,
                title = t, description = pv_description v, price = p\<rparr>"
  let ?d1 = "d\<lparr>products_seq := products_seq d + 1, products := products d @ [?row]\<rparr>"
  from Cons.prems tp obtain rest where rest: "insert_products now vs ?d1 = (Inr rest, w)"
    and rows: "rows = ?row # rest"
    by (auto simp: Let_def split: if_splits prod.splits sum.splits)
  from Cons.IH[OF rest] have ih:
    "products w = products ?d1 @ rest"
    "map (\<lambda>r. (Some (title r), description r, Some (price r))) rest =
       map (\<lambda>v. (pv_title v, pv_description v, pv_price v)) vs"
    "map product_id rest = map (\<lambda>i. products_seq ?d1 + int i) [0..<length vs]"
    "users w = users ?d1" "orders w = orders ?d1" "order_products w = order_products ?d1"
    by simp_all
  have ids: "map product_id rows = map (\<lambda>i. products_seq d + int i) [0..<length (v # vs)]"
    using ih(3) rows
    by (simp add: upt_conv_Cons map_Suc_upt[symmetric] del: upt_Suc)
  show ?case
    using ih(1,2,4,5,6) rows tp ids by simp
qed


text \<open>
  C7. \<^verbatim>\<open>add_bulk_products\<close> is all or nothing. For every list of dictionaries, either
  the call succeeds, and then it returns one created product for each dictionary, in
  order and with the dictionary's title, description and price, and the products table
  is the old one followed by exactly these rows; or the call fails, and then the
  products table, like every other table, is the one from before the call.
\<close>

theorem add_bulk_products_all_or_nothing:
  "case add_bulk_products now vs d of
     (Inr rows, d') \<Rightarrow>
       products d' = products d @ rows \<and> length rows = length vs \<and>
       map (\<lambda>r. (Some (title r), description r, Some (price r))) rows =
         map (\<lambda>v. (pv_title v, pv_description v, pv_price v)) vs \<and>
       users d' = users d \<and> orders d' = orders d \<and> order_products d' = order_products d
   | (Inl e, d') \<Rightarrow>
       products d' = products d \<and> users d' = users d \<and> orders d' = orders d \<and>
       order_products d' = order_products d"
proof (cases "insert_products now vs d")
  case (Pair res w)
  show ?thesis
  proof (cases res)
    case (Inl e)
    with Pair show ?thesis
      by (simp add: add_bulk_products_def execute_and_commit_def rollback_def)
  next
    case (Inr rows)
    with Pair have run: "insert_products now vs d = (Inr rows, w)" by simp
    note ok = insert_products_ok[OF run]
    from ok have "length (map (\<lambda>r. (Some (title r), description r, Some (price r))) rows) =
        length (map (\<lambda>v. (pv_title v, pv_description v, pv_price v)) vs)"
      by simp
    then have "length rows = length vs" by simp
    with ok run show ?thesis
      by (simp add: add_bulk_products_def execute_and_commit_def)
  qed
qed

theorem add_bulk_products_all_or_nothing_witness:
  "add_bulk_products 9
     [\<lparr>pv_title = Some ''jar'', pv_description = None, pv_price = Some 10000\<rparr>,
      \<lparr>pv_title = Some ''lid'', pv_description = Some ''a lid'', pv_price = Some 20000\<rparr>]
     empty_db =
   (Inr [\<lparr>created_at = 9, updated_at = 9, product_id = 1, title = ''jar'',
           description = None, price = 10000\<rparr>,
         \<lparr>created_at = 9, updated_at = 9, product_id = 2, title = ''lid'',
           description = Some ''a lid'', price = 20000\<rparr>],
    empty_db\<lparr>products :=
        [\<lparr>created_at = 9, updated_at = 9, product_id = 1, title = ''jar'',
           description = None, price = 10000\<rparr>,
         \<lparr>created_at = 9, updated_at = 9, product_id = 2, title = ''lid'',
           description = Some ''a lid'', price = 20000\<rparr>],
      products_seq := 3\<rparr>) \<and>
   fst (add_bulk_products 9
     [\<lparr>pv_title = Some ''jar'', pv_description = None, pv_price = Some 10000\<rparr>,
      \<lparr>pv_title = None, pv_description = Some ''a lid'', pv_price = Some 20000\<rparr>]
     empty_db) = Inl NotNullViolation \<and>
   products (snd (add_bulk_products 9
     [\<lparr>pv_title = Some ''jar'', pv_description = None, pv_price = Some 10000\<rparr>,
      \<lparr>pv_title = None, pv_description = Some ''a lid'', pv_price = Some 20000\<rparr>]
     empty_db)) = []"
proof -
  let ?good = "[\<lparr>pv_title = Some ''jar'', pv_description = None, pv_price = Some 10000\<rparr>,
      \<lparr>pv_title = Some ''lid'', pv_description = Some ''a lid'', pv_price = Some 20000\<rparr>]"
  let ?bad = "[\<lparr>pv_title = Some ''jar'', pv_description = None, pv_price = Some 10000\<rparr>,
      \<lparr>pv_title = None, pv_description = Some ''a lid'', pv_price = Some 20000\<rparr>]"
  have bad: "fst (add_bulk_products 9 ?bad empty_db) = Inl NotNullViolation"
    by (simp add: add_bulk_products_def execute_and_commit_def empty_db_def Let_def)
  then obtain d' where d': "add_bulk_products 9 ?bad empty_db = (Inl NotNullViolation, d')"
    by (cases "add_bulk_products 9 ?bad empty_db") simp
  have "products d' = products empty_db"
    using add_bulk_products_all_or_nothing[where now=9 and vs="?bad" and d=empty_db] d' by simp
  then have untouched: "products (snd (add_bulk_products 9 ?bad empty_db)) = []"
    using d' by (simp add: empty_db_def)
  have good: "add_bulk_products 9 ?good empty_db =
   (Inr [\<lparr>created_at = 9, updated_at = 9, product_id = 1, title = ''jar'',
           description = None, price = 10000\<rparr>,
         \<lparr>created_at = 9, updated_at = 9, product_id = 2, title = ''lid'',
           description = Some ''a lid'', price = 20000\<rparr>],
    empty_db\<lparr>products :=
        [\<lparr>created_at = 9, updated_at = 9, product_id = 1, title = ''jar'',
           description = None, price = 10000\<rparr>,
         \<lparr>created_at = 9, updated_at = 9, product_id = 2, title = ''lid'',
           description = Some ''a lid'', price = 20000\<rparr>],
      products_seq := 3\<rparr>)"
    by (simp add: add_bulk_products_def execute_and_commit_def empty_db_def Let_def)
  show ?thesis by (intro conjI good bad untouched)
qed

section \<open>The table names, file by file\<close>

lemma lower_User: "lower ''User'' = ''user''"
  by (simp add: lower_def lower_char_def ascii_uppercase_def ascii_lowercase_def)

lemma lower_Users: "lower ''Users'' = ''users''"
  by (simp add: lower_def lower_char_def ascii_uppercase_def ascii_lowercase_def)

lemma lower_Orders: "lower ''Orders'' = ''orders''"
  by (simp add: lower_def lower_char_def ascii_uppercase_def ascii_lowercase_def)

text \<open>
  C10, as the claim states it, fails: the claim has every file derive the table name as
  the lowercased class name followed by "s". In the Alembic file 03 the class
  \<^verbatim>\<open>Users\<close> is mapped with \<^verbatim>\<open>TableNameMixin\<close> and its table is "users", not
  "userss".
\<close>

theorem tablename_file03_counterexample:
  "''Users'' \<in> set (mixin_classes File03) \<and>
   tablename File03 ''Users'' = ''users'' \<and>
   tablename File03 ''Users'' \<noteq> lower ''Users'' @ ''s''"
  by (simp add: lower_Users)

text \<open>
  C10, amended. In the files 02, 04, 05 and 06 the table name of a class mapped with
  \<^verbatim>\<open>TableNameMixin\<close> is the lowercased class name followed by "s", one letter longer
  than the class name, a function of the class name alone and the same in these four
  files (so \<^verbatim>\<open>User\<close> gives "users" and \<^verbatim>\<open>Orders\<close> gives "orderss"). In the Alembic
  file 03 it is the lowercased class name with nothing appended.
\<close>

theorem tablename_by_file:
  "(f \<noteq> File03 \<longrightarrow>
      tablename f name = lower name @ ''s'' \<and>
      length (tablename f name) = length name + 1 \<and>
      tablename f name = tablename File04 name) \<and>
   tablename File03 name = lower name \<and>
   tablename File04 ''User'' = ''users'' \<and>
   tablename File04 ''Orders'' = ''orderss''"
  by (cases f) (simp_all add: lower_User lower_Orders, simp_all add: lower_def)

theorem tablename_by_file_witness:
  "File05 \<noteq> File03 \<and>
   tablename File05 ''User'' = ''users'' \<and>
   length (tablename File05 ''User'') = 5 \<and>
   tablename File05 ''User'' = tablename File04 ''User'' \<and>
   tablename File03 ''Users'' = ''users''"
  using tablename_by_file[of File05 "''User''"] tablename_by_file[of File03 "''Users''"]
  by (simp add: lower_User lower_Users)

section \<open>The two joined reads\<close>

lemma sum_list_inner_join:
  fixes h :: "'a \<times> 'b \<Rightarrow> 'c::comm_monoid_add"
  shows "(\<Sum>z\<leftarrow>inner_join xs ys on. h z) =
     (\<Sum>x\<leftarrow>xs. \<Sum>y\<leftarrow>ys. if on x y then h (x, y) else 0)"
proof -
  have row: "sum_list (map (h \<circ> Pair x) (filter (on x) ys)) =
      (\<Sum>y\<leftarrow>ys. if on x y then h (x, y) else 0)" for x
    by (induction ys) simp_all
  show ?thesis
    unfolding inner_join_def
    by (induction xs) (simp_all add: row)
qed

lemma mset_map_filter:
  "mset (map f (filter P rows)) = (\<Sum>z\<leftarrow>rows. if P z then {#f z#} else {#})"
  by (induction rows) simp_all

lemma sum_list_swap:
  fixes g :: "'a \<Rightarrow> 'b \<Rightarrow> 'c::comm_monoid_add"
  shows "(\<Sum>x\<leftarrow>xs. \<Sum>y\<leftarrow>ys. g x y) = (\<Sum>y\<leftarrow>ys. \<Sum>x\<leftarrow>xs. g x y)"
  by (induction xs) (simp_all add: sum_list_addf)

lemma if_sum_list:
  fixes g :: "'a \<Rightarrow> 'c::comm_monoid_add"
  shows "(if c then (\<Sum>x\<leftarrow>xs. g x) else 0) = (\<Sum>x\<leftarrow>xs. if c then g x else 0)"
  by simp

lemma if_if_zero:
  "(if a then (if b then x else 0) else (0::'c::zero)) = (if a \<and> b then x else 0)"
  by simp

lemma mset_relationships:
  "mset (get_all_user_orders_relationships tid d) =
     (\<Sum>u\<leftarrow>users d. \<Sum>ord\<leftarrow>orders d. \<Sum>l\<leftarrow>order_products d. \<Sum>p\<leftarrow>products d.
        if telegram_id u = user_id ord \<and> order_id ord = op_order_id l \<and>
           product_id p = op_product_id l \<and> telegram_id u = tid
        then {#(p, ord, user_name u, quantity l)#} else {#})"
  unfolding get_all_user_orders_relationships_def
  by (simp add: mset_map_filter sum_list_inner_join if_sum_list if_if_zero case_prod_beta
      del: mset_map mset_filter)
    (intro arg_cong[where f = sum_list] map_cong refl, auto)

lemma mset_no_relationships:
  "mset (get_all_user_orders_no_relationships tid d) =
     (\<Sum>p\<leftarrow>products d. \<Sum>l\<leftarrow>order_products d. \<Sum>ord\<leftarrow>orders d. \<Sum>u\<leftarrow>users d.
        if telegram_id u = user_id ord \<and> order_id ord = op_order_id l \<and>
           product_id p = op_product_id l \<and> telegram_id u = tid
        then {#(p, ord, user_name u, quantity l)#} else {#})"
  unfolding get_all_user_orders_no_relationships_def
  by (simp add: mset_map_filter sum_list_inner_join if_sum_list if_if_zero case_prod_beta
      del: mset_map mset_filter)
    (intro arg_cong[where f = sum_list] map_cong refl, auto)


lemma sum_list_reverse4:
  fixes g :: "'a \<Rightarrow> 'b \<Rightarrow> 'c \<Rightarrow> 'd \<Rightarrow> 'e::comm_monoid_add"
  shows "(\<Sum>a\<leftarrow>as. \<Sum>b\<leftarrow>bs. \<Sum>c\<leftarrow>cs. \<Sum>d\<leftarrow>ds. g a b c d) =
     (\<Sum>d\<leftarrow>ds. \<Sum>c\<leftarrow>cs. \<Sum>b\<leftarrow>bs. \<Sum>a\<leftarrow>as. g a b c d)"
proof -
  have "(\<Sum>a\<leftarrow>as. \<Sum>b\<leftarrow>bs. \<Sum>c\<leftarrow>cs. \<Sum>d\<leftarrow>ds. g a b c d) =
      (\<Sum>a\<leftarrow>as. \<Sum>b\<leftarrow>bs. \<Sum>d\<leftarrow>ds. \<Sum>c\<leftarrow>cs. g a b c d)"
    by (simp only: sum_list_swap[of _ cs ds])
  also have "\<dots> = (\<Sum>a\<leftarrow>as. \<Sum>d\<leftarrow>ds. \<Sum>b\<leftarrow>bs. \<Sum>c\<leftarrow>cs. g a b c d)"
    by (simp only: sum_list_swap[of _ bs ds])
  also have "\<dots> = (\<Sum>d\<leftarrow>ds. \<Sum>a\<leftarrow>as. \<Sum>b\<leftarrow>bs. \<Sum>c\<leftarrow>cs. g a b c d)"
    by (simp only: sum_list_swap[of _ as ds])
  also have "\<dots> = (\<Sum>d\<leftarrow>ds. \<Sum>a\<leftarrow>as. \<Sum>c\<leftarrow>cs. \<Sum>b\<leftarrow>bs. g a b c d)"
    by (simp only: sum_list_swap[of _ bs cs])
  also have "\<dots> = (\<Sum>d\<leftarrow>ds. \<Sum>c\<leftarrow>cs. \<Sum>a\<leftarrow>as. \<Sum>b\<leftarrow>bs. g a b c d)"
    by (simp only: sum_list_swap[of _ as cs])
  also have "\<dots> = (\<Sum>d\<leftarrow>ds. \<Sum>c\<leftarrow>cs. \<Sum>b\<leftarrow>bs. \<Sum>a\<leftarrow>as. g a b c d)"
    by (simp only: sum_list_swap[of _ as bs])
  finally show ?thesis .
qed

text \<open>
  C4. For every user id and every database, \<^verbatim>\<open>get_all_user_orders_relationships\<close>
  and \<^verbatim>\<open>get_all_user_orders_no_relationships\<close> return the same multiset of
  (product, order, user name, quantity) rows.
\<close>

theorem joined_reads_agree:
  "mset (get_all_user_orders_relationships tid d) =
   mset (get_all_user_orders_no_relationships tid d)"
  unfolding mset_relationships mset_no_relationships
  by (rule sum_list_reverse4)


theorem joined_reads_agree_witness:
  "mset (get_all_user_orders_relationships 2 example_db) =
   mset (get_all_user_orders_no_relationships 2 example_db) \<and>
   get_all_user_orders_relationships 2 example_db =
     [(\<lparr>created_at = 4, updated_at = 4, product_id = 1, title = ''tea'',
         description = None, price = 50000\<rparr>,
       \<lparr>created_at = 2, updated_at = 2, order_id = 1, user_id = 2\<rparr>, Some ''bob'', 3),
      (\<lparr>created_at = 4, updated_at = 4, product_id = 2, title = ''cup'',
         description = Some ''a cup'', price = 70000\<rparr>,
       \<lparr>created_at = 2, updated_at = 2, order_id = 1, user_id = 2\<rparr>, Some ''bob'', 4)]"
proof -
  have rows: "get_all_user_orders_relationships 2 example_db =
     [(\<lparr>created_at = 4, updated_at = 4, product_id = 1, title = ''tea'',
         description = None, price = 50000\<rparr>,
       \<lparr>created_at = 2, updated_at = 2, order_id = 1, user_id = 2\<rparr>, Some ''bob'', 3),
      (\<lparr>created_at = 4, updated_at = 4, product_id = 2, title = ''cup'',
         description = Some ''a cup'', price = 70000\<rparr>,
       \<lparr>created_at = 2, updated_at = 2, order_id = 1, user_id = 2\<rparr>, Some ''bob'', 4)]"
    by (simp add: get_all_user_orders_relationships_def inner_join_def example_db_def
        user_a_def user_b_def)
  show ?thesis
    using joined_reads_agree[of 2 example_db] rows by (intro conjI)
qed

section \<open>The summed quantities above a threshold\<close>

lemma filter_concat: "filter P (concat xss) = concat (map (filter P) xss)"
  by (induction xss) simp_all

lemma concat_map_if_singleton:
  "concat (map (\<lambda>x. if P x then [f x] else []) xs) = map f (filter P xs)"
  by (induction xs) simp_all

lemma quantities_of_line_orders:
  "map (\<lambda>(l, ord). quantity l) (filter (\<lambda>(l, ord). user_id ord = uid) (line_orders d)) =
   line_item_quantities uid d"
  unfolding line_orders_def inner_join_def line_item_quantities_def
  by (simp add: filter_concat map_concat comp_def filter_map)

lemma group_of_user:
  fixes los :: "(OrderProducts \<times> Order) list" and us :: "User list"
  assumes "distinct (map telegram_id us)" and "u \<in> set us"
  shows "filter (\<lambda>((l, ord), u'). telegram_id u' = telegram_id u)
           (inner_join los us (\<lambda>(l, ord) u'. telegram_id u' = user_id ord)) =
         map (\<lambda>lo. (lo, u)) (filter (\<lambda>(l, ord). user_id ord = telegram_id u) los)"
proof -
  have one: "filter (\<lambda>y. telegram_id y = telegram_id u) us = [u]"
    by (rule filter_key_distinct[OF assms])
  have row: "filter (\<lambda>((l, ord), u'). telegram_id u' = telegram_id u)
        (map (Pair lo) (filter (\<lambda>u'. telegram_id u' = user_id (snd lo)) us)) =
      (if user_id (snd lo) = telegram_id u then [(lo, u)] else [])" for lo :: "OrderProducts \<times> Order"
  proof -
    have "filter (\<lambda>((l, ord), u'). telegram_id u' = telegram_id u)
        (map (Pair lo) (filter (\<lambda>u'. telegram_id u' = user_id (snd lo)) us)) =
      map (Pair lo) (filter (\<lambda>u'. telegram_id u' = user_id (snd lo))
        (filter (\<lambda>y. telegram_id y = telegram_id u) us))"
      by (cases lo) (simp add: filter_map comp_def conj_commute)
    then show ?thesis by (simp add: one)
  qed
  have "filter (\<lambda>((l, ord), u'). telegram_id u' = telegram_id u)
           (inner_join los us (\<lambda>(l, ord) u'. telegram_id u' = user_id ord)) =
     concat (map (\<lambda>lo. if user_id (snd lo) = telegram_id u then [(lo, u)] else []) los)"
    unfolding inner_join_def
    by (simp add: filter_concat comp_def case_prod_beta) (simp only: row)
  also have "\<dots> = map (\<lambda>lo. (lo, u)) (filter (\<lambda>lo. user_id (snd lo) = telegram_id u) los)"
    by (rule concat_map_if_singleton)
  finally show ?thesis by (simp add: case_prod_unfold)
qed


lemma mset_concat_map:
  "mset (concat (map f xs)) = (\<Sum>x\<in>#mset xs. mset (f x))"
  by (induction xs) simp_all

lemma join_user_in_users:
  "z \<in> set (inner_join los us on) \<Longrightarrow> snd z \<in> set us"
  by (auto simp: inner_join_def)


lemma sum_mset_if_single:
  "(\<Sum>u\<in>#M. if P u then {#f u#} else {#}) = image_mset f (filter_mset P M)"
  by (induction M) simp_all

lemma products_by_user_rows:
  "products_by_user d =
     map (\<lambda>k. (k, filter (\<lambda>z. telegram_id (snd z) = k) (user_rows d)))
       (remdups (map (\<lambda>z. telegram_id (snd z)) (user_rows d)))"
  by (simp add: products_by_user_def group_by_def case_prod_unfold)

lemma group_rows:
  assumes "distinct (map telegram_id (users d))" and "u \<in> set (users d)"
  shows "filter (\<lambda>z. telegram_id (snd z) = telegram_id u) (user_rows d) =
         map (\<lambda>lo. (lo, u)) (filter (\<lambda>(l, ord). user_id ord = telegram_id u) (line_orders d))"
  using group_of_user[OF assms, of "line_orders d"]
  by (simp add: user_rows_def case_prod_unfold)

lemma group_quantities:
  assumes "distinct (map telegram_id (users d))" and "u \<in> set (users d)"
  shows "map (\<lambda>z. quantity (fst (fst z)))
           (filter (\<lambda>z. telegram_id (snd z) = telegram_id u) (user_rows d)) =
         line_item_quantities (telegram_id u) d"
  using quantities_of_line_orders[of "telegram_id u" d]
  by (simp add: group_rows[OF assms] comp_def case_prod_unfold)

lemma group_having:
  assumes "distinct (map telegram_id (users d))" and "u \<in> set (users d)"
  shows "(case filter (\<lambda>z. telegram_id (snd z) = telegram_id u) (user_rows d) of
            [] \<Rightarrow> []
          | ((l, ord), u') # _ \<Rightarrow>
              if sum_quantity (filter (\<lambda>z. telegram_id (snd z) = telegram_id u) (user_rows d)) > x
              then [(sum_quantity (filter (\<lambda>z. telegram_id (snd z) = telegram_id u) (user_rows d)),
                     full_name u')]
              else []) =
         (if line_item_quantities (telegram_id u) d \<noteq> [] \<and>
             sum_list (line_item_quantities (telegram_id u) d) > x
          then [(sum_list (line_item_quantities (telegram_id u) d), full_name u)] else [])"
proof -
  let ?g = "filter (\<lambda>z. telegram_id (snd z) = telegram_id u) (user_rows d)"
  have q: "map (\<lambda>z. quantity (fst (fst z))) ?g = line_item_quantities (telegram_id u) d"
    by (rule group_quantities[OF assms])
  have s: "sum_quantity ?g = sum_list (line_item_quantities (telegram_id u) d)"
    unfolding sum_quantity_def q[symmetric] by (simp add: case_prod_unfold)
  show ?thesis
  proof (cases ?g)
    case Nil
    with q have "line_item_quantities (telegram_id u) d = []" by simp
    with Nil show ?thesis by simp
  next
    case (Cons z zs)
    with q have ne: "line_item_quantities (telegram_id u) d \<noteq> []" by auto
    have "z \<in> set ?g" using Cons by simp
    then have "z \<in> set (map (\<lambda>lo. (lo, u))
        (filter (\<lambda>(l, ord). user_id ord = telegram_id u) (line_orders d)))"
      by (simp only: group_rows[OF assms])
    then have "snd z = u" by auto
    with Cons ne s show ?thesis
      by (cases z) (auto simp: case_prod_unfold)
  qed
qed


lemma greater_than_x_rows:
  "get_count_of_products_greater_than_x_by_user x d =
     concat (map (\<lambda>k.
         case filter (\<lambda>z. telegram_id (snd z) = k) (user_rows d) of
           [] \<Rightarrow> []
         | ((l, ord), u') # _ \<Rightarrow>
             if sum_quantity (filter (\<lambda>z. telegram_id (snd z) = k) (user_rows d)) > x
             then [(sum_quantity (filter (\<lambda>z. telegram_id (snd z) = k) (user_rows d)),
                    full_name u')]
             else [])
       (remdups (map (\<lambda>z. telegram_id (snd z)) (user_rows d))))"
  by (simp add: get_count_of_products_greater_than_x_by_user_def products_by_user_rows
      comp_def)

lemma group_keys:
  assumes dist: "distinct (map telegram_id (users d))"
  shows "mset (remdups (map (\<lambda>z. telegram_id (snd z)) (user_rows d))) =
         mset (map telegram_id
           (filter (\<lambda>u. line_item_quantities (telegram_id u) d \<noteq> []) (users d)))"
proof (rule set_eq_iff_mset_eq_distinct[THEN iffD1])
  show "distinct (remdups (map (\<lambda>z. telegram_id (snd z)) (user_rows d)))" by simp
  show "distinct (map telegram_id
      (filter (\<lambda>u. line_item_quantities (telegram_id u) d \<noteq> []) (users d)))"
    using dist by (rule distinct_map_filter)
  show "set (remdups (map (\<lambda>z. telegram_id (snd z)) (user_rows d))) =
      set (map telegram_id
        (filter (\<lambda>u. line_item_quantities (telegram_id u) d \<noteq> []) (users d)))"
  proof (intro set_eqI iffI)
    fix k
    assume "k \<in> set (remdups (map (\<lambda>z. telegram_id (snd z)) (user_rows d)))"
    then obtain z where z: "z \<in> set (user_rows d)" "k = telegram_id (snd z)" by auto
    then have u: "snd z \<in> set (users d)"
      unfolding user_rows_def by (auto dest: join_user_in_users)
    from z have "z \<in> set (filter (\<lambda>y. telegram_id (snd y) = telegram_id (snd z)) (user_rows d))"
      by simp
    then have "map (\<lambda>z. quantity (fst (fst z)))
        (filter (\<lambda>y. telegram_id (snd y) = telegram_id (snd z)) (user_rows d)) \<noteq> []"
      by (auto simp: filter_empty_conv)
    then have "line_item_quantities (telegram_id (snd z)) d \<noteq> []"
      unfolding group_quantities[OF dist u] .
    with u z(2) show "k \<in> set (map telegram_id
        (filter (\<lambda>u. line_item_quantities (telegram_id u) d \<noteq> []) (users d)))"
      by auto
  next
    fix k
    assume "k \<in> set (map telegram_id
        (filter (\<lambda>u. line_item_quantities (telegram_id u) d \<noteq> []) (users d)))"
    then obtain u where u: "u \<in> set (users d)" "k = telegram_id u"
      "line_item_quantities (telegram_id u) d \<noteq> []" by auto
    from u(3) have "filter (\<lambda>z. telegram_id (snd z) = telegram_id u) (user_rows d) \<noteq> []"
      using group_quantities[OF dist u(1)] by auto
    then obtain z where "z \<in> set (user_rows d)" "telegram_id (snd z) = telegram_id u"
      by (auto simp: filter_empty_conv)
    with u(2) show "k \<in> set (remdups (map (\<lambda>z. telegram_id (snd z)) (user_rows d)))"
      by force
  qed
qed

text \<open>
  C5, as the claim states it, fails: the claim has the query return, for every threshold,
  exactly the users whose summed line-item quantity is greater than the threshold. A user
  with no line items has the sum 0, which is greater than the threshold -1, and is not
  returned: the joins are inner joins, so that user has no row and no group. Here the
  third user is added by \<^verbatim>\<open>add_user\<close> and has no order.
\<close>

theorem greater_than_x_counterexample:
  "add_user 5 3 ''Cy Doe'' ''en'' None None example_db =
     (Inr (Some user_c), example_db\<lparr>users := [user_a, user_b, user_c]\<rparr>) \<and>
   line_item_quantities (telegram_id user_c)
     (example_db\<lparr>users := [user_a, user_b, user_c]\<rparr>) = [] \<and>
   sum_list (line_item_quantities (telegram_id user_c)
     (example_db\<lparr>users := [user_a, user_b, user_c]\<rparr>)) > - 1 \<and>
   get_count_of_products_greater_than_x_by_user (- 1)
     (example_db\<lparr>users := [user_a, user_b, user_c]\<rparr>) =
     [(7, ''Bob Ray''), (9, ''Ann Lee'')] \<and>
   (sum_list (line_item_quantities (telegram_id user_c)
      (example_db\<lparr>users := [user_a, user_b, user_c]\<rparr>)), full_name user_c) \<notin>
     set (get_count_of_products_greater_than_x_by_user (- 1)
       (example_db\<lparr>users := [user_a, user_b, user_c]\<rparr>))"
proof -
  let ?d = "example_db\<lparr>users := [user_a, user_b, user_c]\<rparr>"
  have call: "add_user 5 3 ''Cy Doe'' ''en'' None None example_db = (Inr (Some user_c), ?d)"
    by (simp add: add_user_fresh example_db_def user_a_def user_b_def user_c_def
        referrer_exists_def Let_def)
  have none: "line_item_quantities (telegram_id user_c) ?d = []"
    by (simp add: line_item_quantities_def example_db_def user_c_def)
  have rows: "get_count_of_products_greater_than_x_by_user (- 1) ?d =
      [(7, ''Bob Ray''), (9, ''Ann Lee'')]"
    by (simp add: get_count_of_products_greater_than_x_by_user_def products_by_user_def
        group_by_def user_rows_def line_orders_def inner_join_def sum_quantity_def
        example_db_def user_a_def user_b_def user_c_def)
  show ?thesis
    by (simp add: call none rows)
qed

text \<open>
  C5, amended. In a database with unique user keys, for every threshold \<open>x\<close>
  \<^verbatim>\<open>get_count_of_products_greater_than_x_by_user\<close> returns one row for exactly those
  users who have at least one line item and whose summed line-item quantity is strictly
  greater than \<open>x\<close>: the row carries that sum, taken over all line items of the user,
  and the user's \<^verbatim>\<open>full_name\<close>. A user whose sum equals \<open>x\<close> is not returned, and a
  user with no line items is never returned. The sum that is compared is the sum of the
  whole group, so the filter works on the groups, not on the single line items.
\<close>

theorem greater_than_x_exactly:
  assumes "distinct (map telegram_id (users d))"
  shows "mset (get_count_of_products_greater_than_x_by_user x d) =
     image_mset (\<lambda>u. (sum_list (line_item_quantities (telegram_id u) d), full_name u))
       (filter_mset
          (\<lambda>u. line_item_quantities (telegram_id u) d \<noteq> [] \<and>
               sum_list (line_item_quantities (telegram_id u) d) > x)
          (mset (users d)))"
proof -
  let ?F = "\<lambda>k. case filter (\<lambda>z. telegram_id (snd z) = k) (user_rows d) of
           [] \<Rightarrow> []
         | ((l, ord), u') # _ \<Rightarrow>
             if sum_quantity (filter (\<lambda>z. telegram_id (snd z) = k) (user_rows d)) > x
             then [(sum_quantity (filter (\<lambda>z. telegram_id (snd z) = k) (user_rows d)),
                    full_name u')]
             else []"
  let ?has = "\<lambda>u. line_item_quantities (telegram_id u) d \<noteq> []"
  let ?P = "\<lambda>u. line_item_quantities (telegram_id u) d \<noteq> [] \<and>
               sum_list (line_item_quantities (telegram_id u) d) > x"
  let ?R = "\<lambda>u. (sum_list (line_item_quantities (telegram_id u) d), full_name u)"
  have "mset (get_count_of_products_greater_than_x_by_user x d) =
      (\<Sum>k\<in>#mset (remdups (map (\<lambda>z. telegram_id (snd z)) (user_rows d))). mset (?F k))"
    by (simp only: greater_than_x_rows mset_concat_map)
  also have "\<dots> = (\<Sum>k\<in>#mset (map telegram_id (filter ?has (users d))). mset (?F k))"
    by (simp only: group_keys[OF assms])
  also have "\<dots> = (\<Sum>u\<in>#mset (filter ?has (users d)). mset (?F (telegram_id u)))"
    by (simp add: image_mset.compositionality comp_def del: mset_filter)
  also have "\<dots> = (\<Sum>u\<in>#mset (filter ?has (users d)). if ?P u then {#?R u#} else {#})"
  proof (rule arg_cong[where f = sum_mset], rule image_mset_cong)
    fix u assume "u \<in># mset (filter ?has (users d))"
    then have u: "u \<in> set (users d)" by simp
    show "mset (?F (telegram_id u)) = (if ?P u then {#?R u#} else {#})"
      by (simp only: group_having[OF assms u]) simp
  qed
  also have "\<dots> = image_mset ?R (filter_mset ?P (mset (filter ?has (users d))))"
    by (rule sum_mset_if_single)
  also have "\<dots> = image_mset ?R (filter_mset ?P (mset (users d)))"
    by (simp add: filter_filter_mset conj_commute cong: conj_cong)
  finally show ?thesis .
qed


theorem greater_than_x_exactly_witness:
  "line_item_quantities 2 example_db = [3, 4] \<and>
   line_item_quantities 1 example_db = [9] \<and>
   mset (get_count_of_products_greater_than_x_by_user 5 example_db) =
     {#(7, ''Bob Ray''), (9, ''Ann Lee'')#} \<and>
   mset (get_count_of_products_greater_than_x_by_user 7 example_db) = {#(9, ''Ann Lee'')#}"
proof -
  have b: "line_item_quantities 2 example_db = [3, 4]"
    by (simp add: line_item_quantities_def example_db_def)
  have a: "line_item_quantities 1 example_db = [9]"
    by (simp add: line_item_quantities_def example_db_def)
  have us: "users example_db = [user_a, user_b]"
    by (simp add: example_db_def)
  have ids: "telegram_id user_a = 1" "telegram_id user_b = 2"
    "full_name user_a = ''Ann Lee''" "full_name user_b = ''Bob Ray''"
    by (simp_all add: user_a_def user_b_def)
  have five: "mset (get_count_of_products_greater_than_x_by_user 5 example_db) =
     {#(7, ''Bob Ray''), (9, ''Ann Lee'')#}"
    using greater_than_x_exactly[OF example_db_distinct, of 5]
    by (simp add: us ids a b)
  have seven: "mset (get_count_of_products_greater_than_x_by_user 7 example_db) =
     {#(9, ''Ann Lee'')#}"
    using greater_than_x_exactly[OF example_db_distinct, of 7]
    by (simp add: us ids a b)
  show ?thesis by (intro conjI a b five seven)
qed

end
